theory Spec2Isabelle
  imports Main "HOL-Library.Word" "HOL-Library.AList"
begin

section \<open>The P2P manager of EOS-testing: data model\<close>

text \<open>
  The embedding follows \<^verbatim>\<open>src/src/p2p/p2p_manager.cpp\<close> and
  \<^verbatim>\<open>src/include/eos_testing/p2p/p2p_manager.hpp\<close>.

  \<^item> \<^verbatim>\<open>EOS_ProductUserId\<close> is a pointer; it is a natural number here and
    \<open>0\<close> is \<^verbatim>\<open>nullptr\<close>.
  \<^item> The file is compiled in one of two ways, with or without \<^verbatim>\<open>EOS_STUB_MODE\<close>.
    Both branches of every \<^verbatim>\<open>#ifdef\<close> are modelled; the flag is a field of the
    environment.
  \<^item> \<^verbatim>\<open>m_connections\<close> is a \<^verbatim>\<open>std::unordered_map\<close>. It is an association
    list with one pair per key; lookup is \<open>map_of\<close>, \<^verbatim>\<open>m[k] = v\<close> is
    \<open>AList.update\<close> and \<^verbatim>\<open>erase\<close> is \<open>AList.delete\<close>. The order of the list
    stands for the iteration order of the hash table, which C++ leaves open.
  \<^item> The three \<^verbatim>\<open>std::function\<close> handlers are consumer code. A handler is a
    flag (registered or empty) and every invocation is appended to \<open>callback_trace\<close>;
    what the consumer does inside a handler is not part of the manager. A handler that
    calls the manager makes a further call of that operation, as any consumer code does.
  \<^item> The EOS SDK is external. Every call handed to it is appended to \<open>sdk_log\<close>, the
    result of \<^verbatim>\<open>EOS_P2P_SendPacket\<close> is a parameter of the environment, and the
    datagrams waiting inside the SDK are the list \<open>sdk_receive_buffer\<close>.
\<close>

type_synonym EOS_ProductUserId = nat

datatype PacketReliability = UnreliableUnordered | ReliableUnordered | ReliableOrdered

datatype ConnectionStatus = Disconnected | Connecting | Connected | ConnectionFailed

record PeerConnection =
  peer_id :: EOS_ProductUserId
  display_name :: string
  status :: ConnectionStatus
  is_relay :: bool
  ping_ms :: "32 word"
  bytes_sent :: "64 word"
  bytes_received :: "64 word"

text \<open>The member initialisers of \<^verbatim>\<open>struct PeerConnection\<close>.\<close>

definition PeerConnection_default :: PeerConnection where
  "PeerConnection_default =
     \<lparr>peer_id = 0, display_name = [], status = Disconnected, is_relay = False,
      ping_ms = 0, bytes_sent = 0, bytes_received = 0\<rparr>"

record IncomingPacket =
  sender :: EOS_ProductUserId
  channel :: "8 word"
  data :: "8 word list"

record P2PConfig =
  socket_name :: string
  allow_relay :: bool
  max_packet_size :: "32 word"
  num_channels :: "8 word"

definition P2PConfig_default :: P2PConfig where
  "P2PConfig_default =
     \<lparr>socket_name = ''GameSocket'', allow_relay = True, max_packet_size = 1170,
      num_channels = 2\<rparr>"

text \<open>One invocation of a consumer handler.\<close>

datatype callback_event =
  ConnectionEstablished EOS_ProductUserId ConnectionStatus
| ConnectionClosed EOS_ProductUserId ConnectionStatus
| PacketReceived IncomingPacket

subsection \<open>The SDK as the manager sees it\<close>

record SendPacketOptions =
  LocalUserId :: EOS_ProductUserId
  RemoteUserId :: EOS_ProductUserId
  SocketName :: string
  Channel :: "8 word"
  DataLengthBytes :: "32 word"
  Data :: "8 word list"
  Reliability :: PacketReliability

datatype sdk_call =
  EOS_P2P_SendPacket SendPacketOptions
| EOS_P2P_AcceptConnection EOS_ProductUserId EOS_ProductUserId string
| EOS_P2P_CloseConnection EOS_ProductUserId EOS_ProductUserId string
| EOS_P2P_AddNotifyPeerConnectionRequest EOS_ProductUserId string
| EOS_P2P_AddNotifyPeerConnectionEstablished EOS_ProductUserId string
| EOS_P2P_AddNotifyPeerConnectionClosed EOS_ProductUserId string

text \<open>
  A datagram waiting in the SDK: \<open>Datagram\<close> is handed over by
  \<^verbatim>\<open>EOS_P2P_ReceivePacket\<close> with \<^verbatim>\<open>EOS_Success\<close>; for \<open>ReceiveFailure\<close> the call
  returns another result and the datagram is gone.
\<close>

datatype rx_datagram = Datagram IncomingPacket | ReceiveFailure

record sdk_env =
  EOS_STUB_MODE :: bool
  is_logged_in :: bool
  get_handle :: bool
  get_product_user_id :: EOS_ProductUserId
  SocketName_size :: nat
  SendPacket_result :: "sdk_call list \<Rightarrow> SendPacketOptions \<Rightarrow> bool"

text \<open>
  \<open>get_handle\<close> says that \<^verbatim>\<open>Platform::instance().get_handle()\<close> is not null,
  \<open>SocketName_size\<close> is \<^verbatim>\<open>sizeof(socket_id.SocketName)\<close> of the SDK header, and
  \<open>SendPacket_result env log options\<close> says that \<^verbatim>\<open>EOS_P2P_SendPacket\<close>, called
  after the calls of \<open>log\<close>, returns \<^verbatim>\<open>EOS_Success\<close>.
\<close>

record p2p_state =
  m_initialized :: bool
  m_config :: P2PConfig
  m_connections :: "(EOS_ProductUserId \<times> PeerConnection) list"
  m_incoming_packets :: "IncomingPacket list"
  on_connection_established :: bool
  on_connection_closed :: bool
  on_packet_received :: bool
  callback_trace :: "callback_event list"
  sdk_log :: "sdk_call list"
  sdk_receive_buffer :: "rx_datagram list"

text \<open>The manager as \<^verbatim>\<open>P2PManager() = default\<close> leaves it, with no handler set.\<close>

definition P2PManager_new :: p2p_state where
  "P2PManager_new =
     \<lparr>m_initialized = False, m_config = P2PConfig_default, m_connections = [],
      m_incoming_packets = [], on_connection_established = False,
      on_connection_closed = False, on_packet_received = False, callback_trace = [],
      sdk_log = [], sdk_receive_buffer = []\<rparr>"

text \<open>
  \<^verbatim>\<open>strncpy(socket_id.SocketName, m_config.socket_name.c_str(),
          sizeof(socket_id.SocketName) - 1)\<close>:
  the characters of the name before its first NUL, and at most
  \<^verbatim>\<open>sizeof(socket_id.SocketName) - 1\<close> of them.
\<close>

definition socket_id_of :: "sdk_env \<Rightarrow> p2p_state \<Rightarrow> string" where
  "socket_id_of env s =
     take (SocketName_size env - 1)
       (takeWhile (\<lambda>c. c \<noteq> CHR 0x00) (socket_name (m_config s)))"

definition sdk_invoke :: "sdk_call \<Rightarrow> p2p_state \<Rightarrow> p2p_state" where
  "sdk_invoke c s = s\<lparr>sdk_log := sdk_log s @ [c]\<rparr>"

text \<open>\<^verbatim>\<open>if (handler) handler(...)\<close>\<close>

definition fire_connection_established ::
  "EOS_ProductUserId \<Rightarrow> ConnectionStatus \<Rightarrow> p2p_state \<Rightarrow> p2p_state" where
  "fire_connection_established peer st s =
     (if on_connection_established s
      then s\<lparr>callback_trace := callback_trace s @ [ConnectionEstablished peer st]\<rparr>
      else s)"

definition fire_connection_closed ::
  "EOS_ProductUserId \<Rightarrow> ConnectionStatus \<Rightarrow> p2p_state \<Rightarrow> p2p_state" where
  "fire_connection_closed peer st s =
     (if on_connection_closed s
      then s\<lparr>callback_trace := callback_trace s @ [ConnectionClosed peer st]\<rparr>
      else s)"

definition fire_packet_received :: "IncomingPacket \<Rightarrow> p2p_state \<Rightarrow> p2p_state" where
  "fire_packet_received packet s =
     (if on_packet_received s
      then s\<lparr>callback_trace := callback_trace s @ [PacketReceived packet]\<rparr>
      else s)"

section \<open>Operations\<close>

definition register_callbacks :: "sdk_env \<Rightarrow> p2p_state \<Rightarrow> p2p_state" where
  "register_callbacks env s =
     (if EOS_STUB_MODE env then s
      else if \<not> get_handle env then s
      else
        sdk_invoke (EOS_P2P_AddNotifyPeerConnectionClosed
                      (get_product_user_id env) (socket_id_of env s))
          (sdk_invoke (EOS_P2P_AddNotifyPeerConnectionEstablished
                         (get_product_user_id env) (socket_id_of env s))
             (sdk_invoke (EOS_P2P_AddNotifyPeerConnectionRequest
                            (get_product_user_id env) (socket_id_of env s)) s)))"

definition unregister_callbacks :: "sdk_env \<Rightarrow> p2p_state \<Rightarrow> p2p_state" where
  "unregister_callbacks env s = s"

definition initialize :: "sdk_env \<Rightarrow> P2PConfig \<Rightarrow> p2p_state \<Rightarrow> bool \<times> p2p_state" where
  "initialize env config s =
     (if m_initialized s then (True, s)
      else if \<not> is_logged_in env then (False, s)
      else
        let s1 = s\<lparr>m_config := config\<rparr> in
        if EOS_STUB_MODE env then (True, s1\<lparr>m_initialized := True\<rparr>)
        else if \<not> get_handle env then (False, s1)
        else (True, (register_callbacks env s1)\<lparr>m_initialized := True\<rparr>))"

definition accept_connections :: "sdk_env \<Rightarrow> EOS_ProductUserId \<Rightarrow> p2p_state \<Rightarrow> p2p_state" where
  "accept_connections env peer s =
     (if \<not> m_initialized s then s
      else if EOS_STUB_MODE env then s
      else if \<not> get_handle env then s
      else sdk_invoke (EOS_P2P_AcceptConnection
                         (get_product_user_id env) peer (socket_id_of env s)) s)"

text \<open>
  \<^verbatim>\<open>auto it = m_connections.find(peer_id);
  if (it != m_connections.end()) it->second.bytes_sent += size;\<close>
  The counter is a \<^verbatim>\<open>uint64_t\<close> and the size a \<^verbatim>\<open>uint32_t\<close>.
\<close>

definition add_bytes_sent :: "EOS_ProductUserId \<Rightarrow> 32 word \<Rightarrow> p2p_state \<Rightarrow> p2p_state" where
  "add_bytes_sent peer sz s =
     (case map_of (m_connections s) peer of
        None \<Rightarrow> s
      | Some c \<Rightarrow>
          s\<lparr>m_connections :=
              AList.update peer (c\<lparr>bytes_sent := bytes_sent c + ucast sz\<rparr>)
                (m_connections s)\<rparr>)"

definition add_bytes_received ::
  "EOS_ProductUserId \<Rightarrow> 32 word \<Rightarrow> p2p_state \<Rightarrow> p2p_state" where
  "add_bytes_received peer n s =
     (case map_of (m_connections s) peer of
        None \<Rightarrow> s
      | Some c \<Rightarrow>
          s\<lparr>m_connections :=
              AList.update peer (c\<lparr>bytes_received := bytes_received c + ucast n\<rparr>)
                (m_connections s)\<rparr>)"

text \<open>
  \<open>payload\<close> is \<^verbatim>\<open>const void* data\<close>: \<open>None\<close> is the null pointer, \<open>Some bs\<close> the
  bytes it points to. \<open>sz\<close> is the separate \<^verbatim>\<open>uint32_t size\<close> argument.
  \<open>send_options\<close> is the \<^verbatim>\<open>EOS_P2P_SendPacketOptions\<close> that the SDK branch fills in; it
  is built only after the null test of \<^verbatim>\<open>data\<close>.
\<close>

definition send_options ::
  "sdk_env \<Rightarrow> EOS_ProductUserId \<Rightarrow> 8 word list option \<Rightarrow> 32 word \<Rightarrow> 8 word \<Rightarrow>
   PacketReliability \<Rightarrow> p2p_state \<Rightarrow> SendPacketOptions" where
  "send_options env peer payload sz chan reliability s =
     \<lparr>LocalUserId = get_product_user_id env, RemoteUserId = peer,
      SocketName = socket_id_of env s, Channel = chan,
      DataLengthBytes = sz, Data = (case payload of None \<Rightarrow> [] | Some bytes \<Rightarrow> bytes),
      Reliability = reliability\<rparr>"

definition send_packet ::
  "sdk_env \<Rightarrow> EOS_ProductUserId \<Rightarrow> 8 word list option \<Rightarrow> 32 word \<Rightarrow> 8 word \<Rightarrow>
   PacketReliability \<Rightarrow> p2p_state \<Rightarrow> bool \<times> p2p_state" where
  "send_packet env peer payload sz chan reliability s =
     (if \<not> m_initialized s \<or> peer = 0 \<or> payload = None \<or> sz = 0 then (False, s)
      else if sz > max_packet_size (m_config s) then (False, s)
      else if EOS_STUB_MODE env then (True, add_bytes_sent peer sz s)
      else if \<not> get_handle env then (False, s)
      else
        let options = send_options env peer payload sz chan reliability s;
            result = SendPacket_result env (sdk_log s) options;
            s1 = sdk_invoke (EOS_P2P_SendPacket options) s
        in if result then (True, add_bytes_sent peer sz s1) else (False, s1))"

definition connect_to_peer :: "sdk_env \<Rightarrow> EOS_ProductUserId \<Rightarrow> p2p_state \<Rightarrow> p2p_state" where
  "connect_to_peer env peer s =
     (if \<not> m_initialized s \<or> peer = 0 then s
      else if EOS_STUB_MODE env then
        let conn = PeerConnection_default
                     \<lparr>peer_id := peer, display_name := ''StubPeer'', status := Connected,
                      is_relay := False, ping_ms := 25\<rparr>;
            s1 = s\<lparr>m_connections := AList.update peer conn (m_connections s)\<rparr>
        in fire_connection_established peer Connected s1
      else
        let s1 = snd (send_packet env peer (Some [1]) 1 0 ReliableOrdered s);
            conn = PeerConnection_default\<lparr>peer_id := peer, status := Connecting\<rparr>
        in s1\<lparr>m_connections := AList.update peer conn (m_connections s1)\<rparr>)"

definition disconnect_from_peer ::
  "sdk_env \<Rightarrow> EOS_ProductUserId \<Rightarrow> p2p_state \<Rightarrow> p2p_state" where
  "disconnect_from_peer env peer s =
     (if \<not> m_initialized s \<or> peer = 0 then s
      else if EOS_STUB_MODE env then
        fire_connection_closed peer Disconnected
          (s\<lparr>m_connections := AList.delete peer (m_connections s)\<rparr>)
      else if \<not> get_handle env then s
      else
        let s1 = sdk_invoke (EOS_P2P_CloseConnection
                               (get_product_user_id env) peer (socket_id_of env s)) s
        in s1\<lparr>m_connections := AList.delete peer (m_connections s1)\<rparr>)"

text \<open>The peers are copied out first; the loop runs over the copy.\<close>

definition disconnect_all :: "sdk_env \<Rightarrow> p2p_state \<Rightarrow> p2p_state" where
  "disconnect_all env s =
     fold (\<lambda>peer s'. disconnect_from_peer env peer s') (map fst (m_connections s)) s"

definition shutdown :: "sdk_env \<Rightarrow> p2p_state \<Rightarrow> p2p_state" where
  "shutdown env s =
     (if \<not> m_initialized s then s
      else
        let s1 = (if EOS_STUB_MODE env then s
                  else unregister_callbacks env (disconnect_all env s))
        in s1\<lparr>m_connections := [], m_initialized := False\<rparr>)"

definition connected_peers :: "p2p_state \<Rightarrow> EOS_ProductUserId list" where
  "connected_peers s =
     map fst (filter (\<lambda>pair. status (snd pair) = Connected) (m_connections s))"

definition broadcast_packet ::
  "sdk_env \<Rightarrow> 8 word list option \<Rightarrow> 32 word \<Rightarrow> 8 word \<Rightarrow> PacketReliability \<Rightarrow>
   p2p_state \<Rightarrow> p2p_state" where
  "broadcast_packet env payload sz chan reliability s =
     fold (\<lambda>peer s'. snd (send_packet env peer payload sz chan reliability s'))
       (connected_peers s) s"

text \<open>
  The stub loop:
  \<^verbatim>\<open>while (!m_incoming_packets.empty() && packets_received < max_packets)\<close>.
\<close>

function receive_loop_stub :: "32 word \<Rightarrow> 32 word \<Rightarrow> p2p_state \<Rightarrow> 32 word \<times> p2p_state" where
  "receive_loop_stub max_packets packets_received s =
     (if m_incoming_packets s \<noteq> [] \<and> packets_received < max_packets then
        let packet = hd (m_incoming_packets s);
            s1 = s\<lparr>m_incoming_packets := tl (m_incoming_packets s)\<rparr>;
            s2 = fire_packet_received packet s1
        in receive_loop_stub max_packets (packets_received + 1) s2
      else (packets_received, s))"
  by pat_completeness auto
termination
  by (relation "measure (\<lambda>(m, r, s). length (m_incoming_packets s))")
     (auto simp: fire_packet_received_def)

text \<open>
  The SDK loop: \<^verbatim>\<open>while (packets_received < max_packets)\<close>, left by \<^verbatim>\<open>break\<close>
  when \<^verbatim>\<open>EOS_P2P_GetNextReceivedPacketSize\<close> finds nothing or
  \<^verbatim>\<open>EOS_P2P_ReceivePacket\<close> does not succeed. \<^verbatim>\<open>bytes_received\<close> is the length
  of the datagram as a \<^verbatim>\<open>uint32_t\<close>.
\<close>

function receive_loop_sdk :: "32 word \<Rightarrow> 32 word \<Rightarrow> p2p_state \<Rightarrow> 32 word \<times> p2p_state" where
  "receive_loop_sdk max_packets packets_received s =
     (if packets_received < max_packets then
        (case sdk_receive_buffer s of
           [] \<Rightarrow> (packets_received, s)
         | ReceiveFailure # rest \<Rightarrow> (packets_received, s\<lparr>sdk_receive_buffer := rest\<rparr>)
         | Datagram packet # rest \<Rightarrow>
             let s1 = s\<lparr>sdk_receive_buffer := rest\<rparr>;
                 s2 = add_bytes_received (sender packet)
                        (of_nat (length (data packet))) s1;
                 s3 = fire_packet_received packet s2
             in receive_loop_sdk max_packets (packets_received + 1) s3)
      else (packets_received, s))"
  by pat_completeness auto
termination
  by (relation "measure (\<lambda>(m, r, s). length (sdk_receive_buffer s))")
     (auto simp: fire_packet_received_def add_bytes_received_def split: option.splits)

definition receive_packets :: "sdk_env \<Rightarrow> 32 word \<Rightarrow> p2p_state \<Rightarrow> 32 word \<times> p2p_state" where
  "receive_packets env max_packets s =
     (if \<not> m_initialized s then (0, s)
      else if EOS_STUB_MODE env then receive_loop_stub max_packets 0 s
      else if \<not> get_handle env then (0, s)
      else receive_loop_sdk max_packets 0 s)"

definition get_peer_connection :: "p2p_state \<Rightarrow> EOS_ProductUserId \<Rightarrow> PeerConnection option" where
  "get_peer_connection s peer = map_of (m_connections s) peer"

definition get_all_connections :: "p2p_state \<Rightarrow> PeerConnection list" where
  "get_all_connections s = map snd (m_connections s)"

definition is_connected_to :: "p2p_state \<Rightarrow> EOS_ProductUserId \<Rightarrow> bool" where
  "is_connected_to s peer =
     (case map_of (m_connections s) peer of
        None \<Rightarrow> False
      | Some c \<Rightarrow> status c = Connected)"

definition get_peer_count :: "p2p_state \<Rightarrow> 32 word" where
  "get_peer_count s =
     fold (\<lambda>pair count. if status (snd pair) = Connected then count + 1 else count)
       (m_connections s) 0"

subsection \<open>Handlers of the SDK notifications\<close>

definition handle_connection_request ::
  "sdk_env \<Rightarrow> EOS_ProductUserId \<Rightarrow> p2p_state \<Rightarrow> p2p_state" where
  "handle_connection_request env peer s = accept_connections env peer s"

definition handle_connection_established :: "EOS_ProductUserId \<Rightarrow> p2p_state \<Rightarrow> p2p_state" where
  "handle_connection_established peer s =
     (let s1 =
        (case map_of (m_connections s) peer of
           Some c \<Rightarrow>
             s\<lparr>m_connections := AList.update peer (c\<lparr>status := Connected\<rparr>) (m_connections s)\<rparr>
         | None \<Rightarrow>
             s\<lparr>m_connections :=
                 AList.update peer
                   (PeerConnection_default\<lparr>peer_id := peer, status := Connected\<rparr>)
                   (m_connections s)\<rparr>)
      in fire_connection_established peer Connected s1)"

definition handle_connection_closed :: "EOS_ProductUserId \<Rightarrow> p2p_state \<Rightarrow> p2p_state" where
  "handle_connection_closed peer s =
     fire_connection_closed peer Disconnected
       (s\<lparr>m_connections := AList.delete peer (m_connections s)\<rparr>)"

subsection \<open>Environments and states used in the examples\<close>

text \<open>
  A stub build, and a build against the SDK whose platform handle is there and whose
  \<^verbatim>\<open>EOS_P2P_SendPacket\<close> always returns \<^verbatim>\<open>EOS_Success\<close>. In both the local user
  is logged in.
\<close>

definition stub_env :: sdk_env where
  "stub_env =
     \<lparr>EOS_STUB_MODE = True, is_logged_in = True, get_handle = False,
      get_product_user_id = 305419896, SocketName_size = 33,
      SendPacket_result = (\<lambda>log options. False)\<rparr>"

definition live_env :: sdk_env where
  "live_env =
     \<lparr>EOS_STUB_MODE = False, is_logged_in = True, get_handle = True,
      get_product_user_id = 305419896, SocketName_size = 33,
      SendPacket_result = (\<lambda>log options. True)\<rparr>"

text \<open>The manager after a successful \<open>initialize\<close> with the default configuration, every
  handler registered.\<close>

definition ready_state :: p2p_state where
  "ready_state =
     P2PManager_new
       \<lparr>m_initialized := True, on_connection_established := True,
        on_connection_closed := True, on_packet_received := True\<rparr>"

text \<open>A table of four peers: 7 and 9 connected, 8 connecting, 10 failed.\<close>

definition mesh_state :: p2p_state where
  "mesh_state =
     ready_state
       \<lparr>m_connections :=
          [(7, PeerConnection_default\<lparr>peer_id := 7, status := Connected\<rparr>),
           (8, PeerConnection_default\<lparr>peer_id := 8, status := Connecting\<rparr>),
           (9, PeerConnection_default\<lparr>peer_id := 9, status := Connected\<rparr>),
           (10, PeerConnection_default\<lparr>peer_id := 10, status := ConnectionFailed\<rparr>)]\<rparr>"

text \<open>
  Three packets: the one-byte hello of peer 7, two bytes of peer 7 on channel 1, one byte
  of peer 9. \<open>queued_state\<close> has them in the queue of the stub build,
  \<open>buffered_state\<close> in the receive buffer of the SDK.
\<close>

definition packet_A :: IncomingPacket where
  "packet_A = \<lparr>sender = 7, channel = 0, data = [1]\<rparr>"

definition packet_B :: IncomingPacket where
  "packet_B = \<lparr>sender = 7, channel = 1, data = [10, 20]\<rparr>"

definition packet_C :: IncomingPacket where
  "packet_C = \<lparr>sender = 9, channel = 0, data = [5]\<rparr>"

definition queued_state :: p2p_state where
  "queued_state = ready_state\<lparr>m_incoming_packets := [packet_A, packet_B, packet_C]\<rparr>"

definition buffered_state :: p2p_state where
  "buffered_state =
     ready_state
       \<lparr>sdk_receive_buffer := [Datagram packet_A, Datagram packet_B, Datagram packet_C]\<rparr>"

text \<open>Peer 7 connected with 100 bytes sent and 40 received; two of its packets wait in
  the SDK.\<close>

definition busy_entry :: PeerConnection where
  "busy_entry =
     PeerConnection_default
       \<lparr>peer_id := 7, status := Connected, bytes_sent := 100, bytes_received := 40\<rparr>"

definition busy_state :: p2p_state where
  "busy_state =
     ready_state
       \<lparr>m_connections := [(7, busy_entry)],
        sdk_receive_buffer := [Datagram packet_A, Datagram packet_B]\<rparr>"

subsection \<open>Notions used in the statements\<close>

text \<open>
  \<open>wf_connections\<close>: the table has one entry per peer, as a \<^verbatim>\<open>std::unordered_map\<close>
  has. \<open>statuses\<close>: the peers of the table with their status, in table order.
  \<open>send_reaches_sdk\<close>: the tests of \<open>send_packet\<close> that do not depend on the peer
  and that, in the SDK build, stand before the call of \<^verbatim>\<open>EOS_P2P_SendPacket\<close>.
\<close>

definition wf_connections :: "p2p_state \<Rightarrow> bool" where
  "wf_connections s = distinct (map fst (m_connections s))"

definition statuses :: "p2p_state \<Rightarrow> (EOS_ProductUserId \<times> ConnectionStatus) list" where
  "statuses s = map (\<lambda>pair. (fst pair, status (snd pair))) (m_connections s)"

definition send_reaches_sdk ::
  "sdk_env \<Rightarrow> 8 word list option \<Rightarrow> 32 word \<Rightarrow> p2p_state \<Rightarrow> bool" where
  "send_reaches_sdk env payload sz s =
     (m_initialized s \<and> payload \<noteq> None \<and> sz \<noteq> 0 \<and> sz \<le> max_packet_size (m_config s) \<and>
      \<not> EOS_STUB_MODE env \<and> get_handle env)"

text \<open>
  \<open>leading_datagrams\<close>: the packets the SDK hands over before its first failure.
  \<open>receive_step\<close>: what the SDK loop of \<open>receive_packets\<close> does with one packet it
  has taken from the SDK, the statistics first and the handler second.
\<close>

fun leading_datagrams :: "rx_datagram list \<Rightarrow> IncomingPacket list" where
  "leading_datagrams [] = []"
| "leading_datagrams (Datagram packet # rest) = packet # leading_datagrams rest"
| "leading_datagrams (ReceiveFailure # rest) = []"

definition receive_step :: "IncomingPacket \<Rightarrow> p2p_state \<Rightarrow> p2p_state" where
  "receive_step packet s =
     fire_packet_received packet
       (add_bytes_received (sender packet) (of_nat (length (data packet))) s)"

text \<open>
  \<open>counters_not_below c r\<close>: \<open>r\<close> is an entry and neither byte counter of it is
  below that of \<open>c\<close>. \<open>datagram_bytes\<close>: the \<^verbatim>\<open>uint32_t bytes_received\<close> of a
  packet. \<open>buffered_bytes\<close>: the bytes of the packets the SDK hands over before its
  first failure.
\<close>

definition counters_not_below :: "PeerConnection \<Rightarrow> PeerConnection option \<Rightarrow> bool" where
  "counters_not_below c r =
     (case r of
        None \<Rightarrow> False
      | Some c' \<Rightarrow> bytes_sent c \<le> bytes_sent c' \<and> bytes_received c \<le> bytes_received c')"

definition datagram_bytes :: "IncomingPacket \<Rightarrow> 32 word" where
  "datagram_bytes packet = of_nat (length (data packet))"

definition buffered_bytes :: "rx_datagram list \<Rightarrow> nat" where
  "buffered_bytes buffer = sum_list (map (\<lambda>x. unat (datagram_bytes x)) (leading_datagrams buffer))"

section \<open>What each operation leaves alone\<close>

declare receive_loop_stub.simps [simp del] receive_loop_sdk.simps [simp del]

lemma update_keeps_statuses:
  "map_of al k = Some c \<Longrightarrow> status c' = status c \<Longrightarrow>
   map (\<lambda>pair. (fst pair, status (snd pair))) (AList.update k c' al)
     = map (\<lambda>pair. (fst pair, status (snd pair))) al"
  by (induction al) (auto split: if_splits)

lemma update_keeps_keys:
  "map_of al k = Some c \<Longrightarrow> map fst (AList.update k c' al) = map fst al"
  by (induction al) (auto split: if_splits)

lemma add_bytes_sent_fields [simp]:
  "m_initialized (add_bytes_sent p n s) = m_initialized s"
  "m_config (add_bytes_sent p n s) = m_config s"
  "m_incoming_packets (add_bytes_sent p n s) = m_incoming_packets s"
  "on_connection_established (add_bytes_sent p n s) = on_connection_established s"
  "on_connection_closed (add_bytes_sent p n s) = on_connection_closed s"
  "on_packet_received (add_bytes_sent p n s) = on_packet_received s"
  "callback_trace (add_bytes_sent p n s) = callback_trace s"
  "sdk_log (add_bytes_sent p n s) = sdk_log s"
  "sdk_receive_buffer (add_bytes_sent p n s) = sdk_receive_buffer s"
  by (simp_all add: add_bytes_sent_def split: option.splits)

lemma add_bytes_sent_statuses [simp]: "statuses (add_bytes_sent p n s) = statuses s"
  by (simp add: add_bytes_sent_def statuses_def update_keeps_statuses split: option.splits)

lemma add_bytes_sent_keys [simp]:
  "map fst (m_connections (add_bytes_sent p n s)) = map fst (m_connections s)"
  by (simp add: add_bytes_sent_def update_keeps_keys split: option.splits)

lemma add_bytes_sent_lookup:
  "map_of (m_connections (add_bytes_sent p n s)) q =
     (if q = p then map_option (\<lambda>c. c\<lparr>bytes_sent := bytes_sent c + ucast n\<rparr>)
                      (map_of (m_connections s) p)
      else map_of (m_connections s) q)"
  by (simp add: add_bytes_sent_def update_conv' split: option.splits)

lemma sdk_invoke_fields [simp]:
  "m_initialized (sdk_invoke c s) = m_initialized s"
  "m_config (sdk_invoke c s) = m_config s"
  "m_connections (sdk_invoke c s) = m_connections s"
  "m_incoming_packets (sdk_invoke c s) = m_incoming_packets s"
  "on_connection_established (sdk_invoke c s) = on_connection_established s"
  "on_connection_closed (sdk_invoke c s) = on_connection_closed s"
  "on_packet_received (sdk_invoke c s) = on_packet_received s"
  "callback_trace (sdk_invoke c s) = callback_trace s"
  "sdk_log (sdk_invoke c s) = sdk_log s @ [c]"
  "sdk_receive_buffer (sdk_invoke c s) = sdk_receive_buffer s"
  by (simp_all add: sdk_invoke_def)

lemma sdk_invoke_statuses [simp]: "statuses (sdk_invoke c s) = statuses s"
  by (simp add: statuses_def)

lemma socket_id_of_cong: "m_config s' = m_config s \<Longrightarrow> socket_id_of env s' = socket_id_of env s"
  by (simp add: socket_id_of_def)

lemma send_options_cong:
  "m_config s' = m_config s \<Longrightarrow>
   send_options env p payload n ch r s' = send_options env p payload n ch r s"
  by (simp add: send_options_def socket_id_of_def)

lemma send_packet_fields [simp]:
  "m_initialized (snd (send_packet env p payload n ch r s)) = m_initialized s"
  "m_config (snd (send_packet env p payload n ch r s)) = m_config s"
  "m_incoming_packets (snd (send_packet env p payload n ch r s)) = m_incoming_packets s"
  "on_connection_established (snd (send_packet env p payload n ch r s)) = on_connection_established s"
  "on_connection_closed (snd (send_packet env p payload n ch r s)) = on_connection_closed s"
  "on_packet_received (snd (send_packet env p payload n ch r s)) = on_packet_received s"
  "callback_trace (snd (send_packet env p payload n ch r s)) = callback_trace s"
  "sdk_receive_buffer (snd (send_packet env p payload n ch r s)) = sdk_receive_buffer s"
  "statuses (snd (send_packet env p payload n ch r s)) = statuses s"
  "map fst (m_connections (snd (send_packet env p payload n ch r s))) = map fst (m_connections s)"
  by (simp_all add: send_packet_def Let_def)

lemma send_reaches_sdk_cong:
  "m_initialized s' = m_initialized s \<Longrightarrow> m_config s' = m_config s \<Longrightarrow>
   send_reaches_sdk env payload sz s' = send_reaches_sdk env payload sz s"
  by (simp add: send_reaches_sdk_def)

lemma send_packet_sdk_log:
  "sdk_log (snd (send_packet env p payload n ch r s)) =
     sdk_log s @
       (if send_reaches_sdk env payload n s \<and> p \<noteq> 0
        then [EOS_P2P_SendPacket (send_options env p payload n ch r s)] else [])"
  by (auto simp: send_packet_def Let_def send_reaches_sdk_def not_less)

lemma send_packet_lookup_other:
  "q \<noteq> p \<Longrightarrow> map_of (m_connections (snd (send_packet env p payload n ch r s))) q
     = map_of (m_connections s) q"
  by (simp add: send_packet_def Let_def add_bytes_sent_lookup)

lemma fold_send_sdk_log:
  "sdk_log (fold (\<lambda>peer s'. snd (send_packet env peer payload n ch r s')) ps s) =
     sdk_log s @
       (if send_reaches_sdk env payload n s
        then map (\<lambda>p. EOS_P2P_SendPacket (send_options env p payload n ch r s))
               (filter (\<lambda>p. p \<noteq> 0) ps)
        else [])"
proof (induction ps arbitrary: s)
  case Nil
  then show ?case by simp
next
  case (Cons p ps)
  let ?s1 = "snd (send_packet env p payload n ch r s)"
  have a: "send_reaches_sdk env payload n ?s1 = send_reaches_sdk env payload n s"
    by (rule send_reaches_sdk_cong) simp_all
  have b: "send_options env q payload n ch r ?s1 = send_options env q payload n ch r s" for q
    by (rule send_options_cong) simp
  show ?case
    by (simp add: Cons.IH a b send_packet_sdk_log)
qed

lemma fold_send_lookup_other:
  "q \<notin> set ps \<Longrightarrow>
   map_of (m_connections (fold (\<lambda>peer s'. snd (send_packet env peer payload n ch r s')) ps s)) q
     = map_of (m_connections s) q"
  by (induction ps arbitrary: s) (simp_all add: send_packet_lookup_other)

lemma fold_send_fields [simp]:
  "callback_trace (fold (\<lambda>peer s'. snd (send_packet env peer payload n ch r s')) ps s) = callback_trace s"
  "statuses (fold (\<lambda>peer s'. snd (send_packet env peer payload n ch r s')) ps s) = statuses s"
  "m_initialized (fold (\<lambda>peer s'. snd (send_packet env peer payload n ch r s')) ps s) = m_initialized s"
  "m_config (fold (\<lambda>peer s'. snd (send_packet env peer payload n ch r s')) ps s) = m_config s"
  "m_incoming_packets (fold (\<lambda>peer s'. snd (send_packet env peer payload n ch r s')) ps s) = m_incoming_packets s"
  "sdk_receive_buffer (fold (\<lambda>peer s'. snd (send_packet env peer payload n ch r s')) ps s) = sdk_receive_buffer s"
  by (induction ps arbitrary: s) simp_all

lemma connected_filter_iff:
  "distinct (map fst al) \<Longrightarrow>
   p \<in> set (map fst (filter (\<lambda>pair. status (snd pair) = Connected) al)) \<longleftrightarrow>
     (case map_of al p of None \<Rightarrow> False | Some c \<Rightarrow> status c = Connected)"
  by (auto simp: image_iff map_of_eq_None_iff split: option.splits dest: eq_key_imp_eq_value)

lemma connected_peers_iff:
  "wf_connections s \<Longrightarrow> p \<in> set (connected_peers s) \<longleftrightarrow> is_connected_to s p"
  unfolding wf_connections_def connected_peers_def is_connected_to_def
  by (rule connected_filter_iff)

lemma connected_peers_distinct: "wf_connections s \<Longrightarrow> distinct (connected_peers s)"
  unfolding wf_connections_def connected_peers_def
  by (simp add: distinct_map_filter)

lemma fire_packet_received_fields [simp]:
  "m_initialized (fire_packet_received p s) = m_initialized s"
  "m_config (fire_packet_received p s) = m_config s"
  "m_connections (fire_packet_received p s) = m_connections s"
  "m_incoming_packets (fire_packet_received p s) = m_incoming_packets s"
  "on_connection_established (fire_packet_received p s) = on_connection_established s"
  "on_connection_closed (fire_packet_received p s) = on_connection_closed s"
  "on_packet_received (fire_packet_received p s) = on_packet_received s"
  "callback_trace (fire_packet_received p s) =
     callback_trace s @ (if on_packet_received s then [PacketReceived p] else [])"
  "sdk_log (fire_packet_received p s) = sdk_log s"
  "sdk_receive_buffer (fire_packet_received p s) = sdk_receive_buffer s"
  by (simp_all add: fire_packet_received_def)

lemma add_bytes_received_fields [simp]:
  "m_initialized (add_bytes_received p n s) = m_initialized s"
  "m_config (add_bytes_received p n s) = m_config s"
  "m_incoming_packets (add_bytes_received p n s) = m_incoming_packets s"
  "on_connection_established (add_bytes_received p n s) = on_connection_established s"
  "on_connection_closed (add_bytes_received p n s) = on_connection_closed s"
  "on_packet_received (add_bytes_received p n s) = on_packet_received s"
  "callback_trace (add_bytes_received p n s) = callback_trace s"
  "sdk_log (add_bytes_received p n s) = sdk_log s"
  "sdk_receive_buffer (add_bytes_received p n s) = sdk_receive_buffer s"
  by (simp_all add: add_bytes_received_def split: option.splits)

lemma add_bytes_received_statuses [simp]: "statuses (add_bytes_received p n s) = statuses s"
  by (simp add: add_bytes_received_def statuses_def update_keeps_statuses split: option.splits)

lemma add_bytes_received_keys [simp]:
  "map fst (m_connections (add_bytes_received p n s)) = map fst (m_connections s)"
  by (simp add: add_bytes_received_def update_keeps_keys split: option.splits)

lemma add_bytes_received_lookup:
  "map_of (m_connections (add_bytes_received p n s)) q =
     (if q = p then map_option (\<lambda>c. c\<lparr>bytes_received := bytes_received c + ucast n\<rparr>)
                      (map_of (m_connections s) p)
      else map_of (m_connections s) q)"
  by (simp add: add_bytes_received_def update_conv' split: option.splits)

lemma receive_step_buffer:
  "receive_step x (s\<lparr>sdk_receive_buffer := b\<rparr>) = (receive_step x s)\<lparr>sdk_receive_buffer := b\<rparr>"
  by (simp add: receive_step_def fire_packet_received_def add_bytes_received_def
        split: option.splits)

lemma fold_receive_step_buffer:
  "fold receive_step xs (s\<lparr>sdk_receive_buffer := b\<rparr>)
     = (fold receive_step xs s)\<lparr>sdk_receive_buffer := b\<rparr>"
  by (induction xs arbitrary: s) (simp_all add: receive_step_buffer)

lemma receive_step_fields [simp]:
  "m_initialized (receive_step x s) = m_initialized s"
  "m_config (receive_step x s) = m_config s"
  "m_incoming_packets (receive_step x s) = m_incoming_packets s"
  "on_connection_established (receive_step x s) = on_connection_established s"
  "on_connection_closed (receive_step x s) = on_connection_closed s"
  "on_packet_received (receive_step x s) = on_packet_received s"
  "callback_trace (receive_step x s) =
     callback_trace s @ (if on_packet_received s then [PacketReceived x] else [])"
  "sdk_log (receive_step x s) = sdk_log s"
  "sdk_receive_buffer (receive_step x s) = sdk_receive_buffer s"
  "statuses (receive_step x s) = statuses s"
  "map fst (m_connections (receive_step x s)) = map fst (m_connections s)"
  by (simp_all add: receive_step_def statuses_def [of "fire_packet_received _ _"])
     (simp add: statuses_def [symmetric])

lemma fold_receive_step_fields [simp]:
  "m_initialized (fold receive_step xs s) = m_initialized s"
  "m_config (fold receive_step xs s) = m_config s"
  "m_incoming_packets (fold receive_step xs s) = m_incoming_packets s"
  "on_connection_established (fold receive_step xs s) = on_connection_established s"
  "on_connection_closed (fold receive_step xs s) = on_connection_closed s"
  "on_packet_received (fold receive_step xs s) = on_packet_received s"
  "sdk_log (fold receive_step xs s) = sdk_log s"
  "sdk_receive_buffer (fold receive_step xs s) = sdk_receive_buffer s"
  "statuses (fold receive_step xs s) = statuses s"
  "map fst (m_connections (fold receive_step xs s)) = map fst (m_connections s)"
  by (induction xs arbitrary: s) simp_all

lemma fold_receive_step_trace:
  "callback_trace (fold receive_step xs s) =
     callback_trace s @ (if on_packet_received s then map PacketReceived xs else [])"
  by (induction xs arbitrary: s) simp_all

lemma fire_connection_established_fields [simp]:
  "m_initialized (fire_connection_established p st s) = m_initialized s"
  "m_config (fire_connection_established p st s) = m_config s"
  "m_connections (fire_connection_established p st s) = m_connections s"
  "m_incoming_packets (fire_connection_established p st s) = m_incoming_packets s"
  "on_connection_established (fire_connection_established p st s) = on_connection_established s"
  "on_connection_closed (fire_connection_established p st s) = on_connection_closed s"
  "on_packet_received (fire_connection_established p st s) = on_packet_received s"
  "callback_trace (fire_connection_established p st s) =
     callback_trace s @ (if on_connection_established s then [ConnectionEstablished p st] else [])"
  "sdk_log (fire_connection_established p st s) = sdk_log s"
  "sdk_receive_buffer (fire_connection_established p st s) = sdk_receive_buffer s"
  by (simp_all add: fire_connection_established_def)

lemma fire_connection_closed_fields [simp]:
  "m_initialized (fire_connection_closed p st s) = m_initialized s"
  "m_config (fire_connection_closed p st s) = m_config s"
  "m_connections (fire_connection_closed p st s) = m_connections s"
  "m_incoming_packets (fire_connection_closed p st s) = m_incoming_packets s"
  "on_connection_established (fire_connection_closed p st s) = on_connection_established s"
  "on_connection_closed (fire_connection_closed p st s) = on_connection_closed s"
  "on_packet_received (fire_connection_closed p st s) = on_packet_received s"
  "callback_trace (fire_connection_closed p st s) =
     callback_trace s @ (if on_connection_closed s then [ConnectionClosed p st] else [])"
  "sdk_log (fire_connection_closed p st s) = sdk_log s"
  "sdk_receive_buffer (fire_connection_closed p st s) = sdk_receive_buffer s"
  by (simp_all add: fire_connection_closed_def)

text \<open>The definitions that evaluate the operations on the example states.\<close>

lemmas eval_defs =
  connect_to_peer_def disconnect_from_peer_def accept_connections_def send_packet_def
  send_options_def socket_id_of_def sdk_invoke_def add_bytes_sent_def add_bytes_received_def
  handle_connection_request_def handle_connection_established_def
  handle_connection_closed_def fire_connection_established_def fire_connection_closed_def
  fire_packet_received_def get_peer_connection_def is_connected_to_def
  live_env_def stub_env_def ready_state_def mesh_state_def P2PManager_new_def
  P2PConfig_default_def PeerConnection_default_def Let_def

section \<open>Before \<open>initialize\<close> and after \<open>shutdown\<close>\<close>

lemma shutdown_not_initialized: "\<not> m_initialized (shutdown env s)"
  by (simp add: shutdown_def Let_def)

lemma send_packet_not_initialized:
  "\<not> m_initialized s \<Longrightarrow> send_packet env peer payload sz chan reliability s = (False, s)"
  by (simp add: send_packet_def)

lemma broadcast_packet_not_initialized:
  "\<not> m_initialized s \<Longrightarrow> broadcast_packet env payload sz chan reliability s = s"
proof -
  assume u: "\<not> m_initialized s"
  have "fold (\<lambda>peer s'. snd (send_packet env peer payload sz chan reliability s')) ps s = s"
    for ps
    by (induction ps) (simp_all add: send_packet_not_initialized [OF u])
  then show ?thesis by (simp add: broadcast_packet_def)
qed

text \<open>
  C10. While \<open>m_initialized\<close> is false, which is so for a new manager, after a failed
  \<open>initialize\<close> and after every \<open>shutdown\<close>, \<open>send_packet\<close> returns false,
  \<open>receive_packets\<close> returns 0, and these two, \<open>connect_to_peer\<close>,
  \<open>disconnect_from_peer\<close>, \<open>accept_connections\<close> and \<open>broadcast_packet\<close> leave the
  whole state as it is: no entry, no handler invocation, no call to the SDK.
\<close>

theorem uninitialized_operations_are_noops:
  "\<not> m_initialized P2PManager_new \<and>
   \<not> m_initialized (shutdown env s0) \<and>
   (\<not> m_initialized s \<longrightarrow>
      (\<not> fst (initialize env config s) \<longrightarrow> \<not> m_initialized (snd (initialize env config s))) \<and>
      send_packet env peer payload sz chan reliability s = (False, s) \<and>
      receive_packets env max_packets s = (0, s) \<and>
      connect_to_peer env peer s = s \<and>
      disconnect_from_peer env peer s = s \<and>
      accept_connections env peer s = s \<and>
      broadcast_packet env payload sz chan reliability s = s)"
proof (intro conjI impI)
  show "\<not> m_initialized P2PManager_new"
    by (simp add: P2PManager_new_def)
  show "\<not> m_initialized (shutdown env s0)"
    by (rule shutdown_not_initialized)
next
  assume "\<not> m_initialized s" and "\<not> fst (initialize env config s)"
  then show "\<not> m_initialized (snd (initialize env config s))"
    by (simp add: initialize_def Let_def split: if_splits)
next
  assume u: "\<not> m_initialized s"
  show "send_packet env peer payload sz chan reliability s = (False, s)"
    by (rule send_packet_not_initialized [OF u])
  show "receive_packets env max_packets s = (0, s)"
    using u by (simp add: receive_packets_def)
  show "connect_to_peer env peer s = s"
    using u by (simp add: connect_to_peer_def)
  show "disconnect_from_peer env peer s = s"
    using u by (simp add: disconnect_from_peer_def)
  show "accept_connections env peer s = s"
    using u by (simp add: accept_connections_def)
  show "broadcast_packet env payload sz chan reliability s = s"
    by (rule broadcast_packet_not_initialized [OF u])
qed

theorem uninitialized_operations_are_noops_witness:
  "\<not> m_initialized (shutdown live_env ready_state) \<and>
   send_packet live_env 7 (Some [1, 2, 3]) 3 0 ReliableOrdered (shutdown live_env ready_state)
     = (False, shutdown live_env ready_state) \<and>
   receive_packets live_env 100 (shutdown live_env ready_state)
     = (0, shutdown live_env ready_state) \<and>
   connect_to_peer live_env 7 (shutdown live_env ready_state) = shutdown live_env ready_state \<and>
   disconnect_from_peer live_env 7 (shutdown live_env ready_state)
     = shutdown live_env ready_state \<and>
   accept_connections live_env 7 (shutdown live_env ready_state)
     = shutdown live_env ready_state \<and>
   \<not> m_initialized P2PManager_new \<and>
   \<not> fst (initialize (live_env\<lparr>get_handle := False\<rparr>) P2PConfig_default P2PManager_new) \<and>
   \<not> m_initialized
       (snd (initialize (live_env\<lparr>get_handle := False\<rparr>) P2PConfig_default P2PManager_new)) \<and>
   connect_to_peer stub_env 7 P2PManager_new = P2PManager_new"
proof -
  have failed:
    "\<not> fst (initialize (live_env\<lparr>get_handle := False\<rparr>) P2PConfig_default P2PManager_new)"
    by (simp add: initialize_def live_env_def P2PManager_new_def)
  show ?thesis
    using uninitialized_operations_are_noops
            [of live_env ready_state "shutdown live_env ready_state" P2PConfig_default
                7 "Some [1, 2, 3]" 3 0 ReliableOrdered 100]
          uninitialized_operations_are_noops
            [of "live_env\<lparr>get_handle := False\<rparr>" ready_state P2PManager_new
                P2PConfig_default 7 "Some [1, 2, 3]" 3 0 ReliableOrdered 100]
          uninitialized_operations_are_noops
            [of stub_env ready_state P2PManager_new P2PConfig_default
                7 "Some [1, 2, 3]" 3 0 ReliableOrdered 100]
          failed
    by simp
qed

section \<open>\<open>initialize\<close> and the authenticator\<close>

text \<open>
  The guard that comes first: on a manager that is already initialized \<open>initialize\<close>
  returns true and changes nothing, whoever is logged in.
\<close>

lemma initialize_already_initialized:
  "m_initialized s \<Longrightarrow> initialize env config s = (True, s)"
  by (simp add: initialize_def)

text \<open>
  C8. When \<open>is_logged_in\<close> is false at the call, \<open>initialize\<close> on a manager that is
  not yet initialized returns false at once: the configuration is not stored, no call to
  the SDK is made, the state is the one before the call and the manager is still not
  initialized. This holds in both builds and whatever the platform handle is.
\<close>

theorem initialize_not_logged_in:
  "\<not> is_logged_in env \<Longrightarrow> \<not> m_initialized s \<Longrightarrow>
     initialize env config s = (False, s) \<and>
     \<not> m_initialized (snd (initialize env config s))"
  by (simp add: initialize_def)

theorem initialize_not_logged_in_witness:
  "\<not> is_logged_in (live_env\<lparr>is_logged_in := False\<rparr>) \<and>
   \<not> m_initialized P2PManager_new \<and>
   initialize (live_env\<lparr>is_logged_in := False\<rparr>)
     (P2PConfig_default\<lparr>socket_name := ''TestGameSocket''\<rparr>) P2PManager_new
     = (False, P2PManager_new) \<and>
   \<not> m_initialized
       (snd (initialize (live_env\<lparr>is_logged_in := False\<rparr>)
               (P2PConfig_default\<lparr>socket_name := ''TestGameSocket''\<rparr>) P2PManager_new)) \<and>
   initialize (stub_env\<lparr>is_logged_in := False\<rparr>) P2PConfig_default P2PManager_new
     = (False, P2PManager_new)"
proof -
  have out: "\<not> is_logged_in (live_env\<lparr>is_logged_in := False\<rparr>)"
    "\<not> is_logged_in (stub_env\<lparr>is_logged_in := False\<rparr>)"
    by simp_all
  have new: "\<not> m_initialized P2PManager_new"
    by (simp add: P2PManager_new_def)
  show ?thesis
    using initialize_not_logged_in
            [OF out(1) new, of "P2PConfig_default\<lparr>socket_name := ''TestGameSocket''\<rparr>"]
          initialize_not_logged_in [OF out(2) new, of P2PConfig_default]
          out(1) new
    by simp
qed

section \<open>Validation in \<open>send_packet\<close>\<close>

lemma send_packet_rejects:
  "sz = 0 \<or> max_packet_size (m_config s) < sz \<or> peer = 0 \<Longrightarrow>
     send_packet env peer payload sz chan reliability s = (False, s)"
  by (auto simp: send_packet_def)

lemma send_packet_one_over:
  "send_packet env peer payload (max_packet_size (m_config s) + 1) chan reliability s
     = (False, s)"
proof (cases "max_packet_size (m_config s) + 1 = 0")
  case True
  then show ?thesis by (simp add: send_packet_def)
next
  case False
  then have "max_packet_size (m_config s) \<noteq> - 1"
    by (metis add.commute add.right_inverse)
  then have "\<not> max_packet_size (m_config s) + 1 \<le> max_packet_size (m_config s)"
    by (simp add: inc_less_eq_self_iff_eq)
  then show ?thesis by (simp add: send_packet_def not_le)
qed

lemma send_packet_at_limit:
  "m_initialized s \<Longrightarrow> peer \<noteq> 0 \<Longrightarrow> payload \<noteq> None \<Longrightarrow> max_packet_size (m_config s) \<noteq> 0 \<Longrightarrow>
   fst (send_packet env peer payload (max_packet_size (m_config s)) chan reliability s) =
     (EOS_STUB_MODE env \<or>
      get_handle env \<and>
      SendPacket_result env (sdk_log s)
        (send_options env peer payload (max_packet_size (m_config s)) chan reliability s))"
  by (auto simp: send_packet_def Let_def)

text \<open>
  C2. \<open>send_packet\<close> returns false and leaves the whole state, the log of SDK calls
  included, as it is when the size is 0, when it exceeds \<open>max_packet_size\<close> or when the
  peer is null. A size of \<open>max_packet_size + 1\<close> is always rejected in this way (if the
  sum wraps around it is 0). With the manager initialized, a peer and a payload that are
  not null and a size equal to a non-zero \<open>max_packet_size\<close>, the call succeeds in the
  stub build, and in the SDK build it succeeds exactly when the platform handle is there
  and \<^verbatim>\<open>EOS_P2P_SendPacket\<close> accepts the packet.
\<close>

theorem send_packet_validation:
  "(sz = 0 \<or> max_packet_size (m_config s) < sz \<or> peer = 0 \<longrightarrow>
      send_packet env peer payload sz chan reliability s = (False, s)) \<and>
   send_packet env peer payload (max_packet_size (m_config s) + 1) chan reliability s
     = (False, s) \<and>
   (m_initialized s \<and> peer \<noteq> 0 \<and> payload \<noteq> None \<and> max_packet_size (m_config s) \<noteq> 0 \<longrightarrow>
      fst (send_packet env peer payload (max_packet_size (m_config s)) chan reliability s) =
        (EOS_STUB_MODE env \<or>
         get_handle env \<and>
         SendPacket_result env (sdk_log s)
           (send_options env peer payload (max_packet_size (m_config s)) chan reliability s)))"
  using send_packet_rejects [of sz s peer env payload chan reliability]
    send_packet_one_over [of env peer payload s chan reliability]
    send_packet_at_limit [of s peer payload env chan reliability]
  by blast

theorem send_packet_validation_witness:
  "send_packet live_env 7 (Some []) 0 1 ReliableOrdered ready_state = (False, ready_state) \<and>
   send_packet live_env 0 (Some [1, 2]) 2 1 ReliableOrdered ready_state = (False, ready_state) \<and>
   send_packet live_env 7 (Some (replicate 1171 0)) 1171 1 ReliableOrdered ready_state
     = (False, ready_state) \<and>
   fst (send_packet live_env 7 (Some (replicate 1170 0)) 1170 1 ReliableOrdered ready_state) \<and>
   fst (send_packet stub_env 7 (Some (replicate 1170 0)) 1170 1 ReliableOrdered ready_state)"
proof -
  have cfg: "max_packet_size (m_config ready_state) = 1170" "m_initialized ready_state"
    by (simp_all add: ready_state_def P2PManager_new_def P2PConfig_default_def)
  show ?thesis
    using send_packet_validation
            [of 0 ready_state 7 live_env "Some []" 1 ReliableOrdered]
          send_packet_validation
            [of 2 ready_state 0 live_env "Some [1, 2]" 1 ReliableOrdered]
          send_packet_validation
            [of 1171 ready_state 7 live_env "Some (replicate 1171 0)" 1 ReliableOrdered]
          send_packet_validation
            [of 1170 ready_state 7 live_env "Some (replicate 1170 0)" 1 ReliableOrdered]
          send_packet_validation
            [of 1170 ready_state 7 stub_env "Some (replicate 1170 0)" 1 ReliableOrdered]
    by (simp add: cfg live_env_def stub_env_def)
qed

section \<open>\<open>broadcast_packet\<close>\<close>

lemma send_packet_stub:
  "EOS_STUB_MODE env \<Longrightarrow> m_initialized s \<Longrightarrow> payload \<noteq> None \<Longrightarrow> n \<noteq> 0 \<Longrightarrow>
   n \<le> max_packet_size (m_config s) \<Longrightarrow>
   send_packet env p payload n ch r s = (if p = 0 then (False, s) else (True, add_bytes_sent p n s))"
  by (auto simp: send_packet_def)

lemma fold_send_stub_lookup:
  "EOS_STUB_MODE env \<Longrightarrow> m_initialized s \<Longrightarrow> payload \<noteq> None \<Longrightarrow> n \<noteq> 0 \<Longrightarrow>
   n \<le> max_packet_size (m_config s) \<Longrightarrow> distinct ps \<Longrightarrow>
   map_of (m_connections (fold (\<lambda>peer s'. snd (send_packet env peer payload n ch r s')) ps s)) q
     = (if q \<in> set ps \<and> q \<noteq> 0
        then map_option (\<lambda>c. c\<lparr>bytes_sent := bytes_sent c + ucast n\<rparr>) (map_of (m_connections s) q)
        else map_of (m_connections s) q)"
proof (induction ps arbitrary: s)
  case Nil
  then show ?case by simp
next
  case (Cons p ps)
  let ?s1 = "snd (send_packet env p payload n ch r s)"
  have s1: "?s1 = (if p = 0 then s else add_bytes_sent p n s)"
    using Cons.prems by (simp add: send_packet_stub)
  have "map_of (m_connections (fold (\<lambda>peer s'. snd (send_packet env peer payload n ch r s')) ps ?s1)) q
     = (if q \<in> set ps \<and> q \<noteq> 0
        then map_option (\<lambda>c. c\<lparr>bytes_sent := bytes_sent c + ucast n\<rparr>) (map_of (m_connections ?s1) q)
        else map_of (m_connections ?s1) q)"
    using Cons.prems by (intro Cons.IH) simp_all
  then show ?case
    using Cons.prems(6) by (auto simp: s1 add_bytes_sent_lookup)
qed

text \<open>
  C6. In a table with one entry per peer, \<open>broadcast_packet\<close> takes the peers whose
  status is \<open>Connected\<close> once, before the first send, each of them once, and calls
  \<open>send_packet\<close> for each. The calls that reach the SDK are exactly one
  \<^verbatim>\<open>EOS_P2P_SendPacket\<close> for every such peer that is not null, in table order, and none
  when \<open>send_packet\<close> rejects the packet; the entry of a peer that is not \<open>Connected\<close>
  is untouched; in the stub build every connected peer's \<open>bytes_sent\<close> grows by the size;
  no status changes and no handler runs. With no connected peer the state is unchanged:
  no call to the SDK is made.
\<close>

theorem broadcast_packet_fan_out:
  assumes wf: "wf_connections s"
  shows
    "(\<forall>p. p \<in> set (connected_peers s) \<longleftrightarrow> is_connected_to s p) \<and>
     distinct (connected_peers s) \<and>
     sdk_log (broadcast_packet env payload sz chan reliability s) =
       sdk_log s @
         (if send_reaches_sdk env payload sz s
          then map (\<lambda>p. EOS_P2P_SendPacket (send_options env p payload sz chan reliability s))
                 (filter (\<lambda>p. p \<noteq> 0) (connected_peers s))
          else []) \<and>
     (\<forall>p. \<not> is_connected_to s p \<longrightarrow>
        get_peer_connection (broadcast_packet env payload sz chan reliability s) p
          = get_peer_connection s p) \<and>
     (EOS_STUB_MODE env \<and> m_initialized s \<and> payload \<noteq> None \<and> sz \<noteq> 0 \<and>
      sz \<le> max_packet_size (m_config s) \<longrightarrow>
        (\<forall>p. is_connected_to s p \<and> p \<noteq> 0 \<longrightarrow>
           get_peer_connection (broadcast_packet env payload sz chan reliability s) p
             = map_option (\<lambda>c. c\<lparr>bytes_sent := bytes_sent c + ucast sz\<rparr>)
                 (get_peer_connection s p))) \<and>
     statuses (broadcast_packet env payload sz chan reliability s) = statuses s \<and>
     callback_trace (broadcast_packet env payload sz chan reliability s) = callback_trace s \<and>
     (connected_peers s = [] \<longrightarrow> broadcast_packet env payload sz chan reliability s = s)"
proof (intro conjI allI impI)
  fix p
  show "p \<in> set (connected_peers s) \<longleftrightarrow> is_connected_to s p"
    by (rule connected_peers_iff [OF wf])
next
  show "distinct (connected_peers s)"
    by (rule connected_peers_distinct [OF wf])
next
  show "sdk_log (broadcast_packet env payload sz chan reliability s) =
       sdk_log s @
         (if send_reaches_sdk env payload sz s
          then map (\<lambda>p. EOS_P2P_SendPacket (send_options env p payload sz chan reliability s))
                 (filter (\<lambda>p. p \<noteq> 0) (connected_peers s))
          else [])"
    unfolding broadcast_packet_def by (rule fold_send_sdk_log)
next
  fix p assume "\<not> is_connected_to s p"
  then have "p \<notin> set (connected_peers s)"
    by (simp add: connected_peers_iff [OF wf])
  then show "get_peer_connection (broadcast_packet env payload sz chan reliability s) p
          = get_peer_connection s p"
    unfolding broadcast_packet_def get_peer_connection_def by (rule fold_send_lookup_other)
next
  fix p
  assume a: "EOS_STUB_MODE env \<and> m_initialized s \<and> payload \<noteq> None \<and> sz \<noteq> 0 \<and>
      sz \<le> max_packet_size (m_config s)" and b: "is_connected_to s p \<and> p \<noteq> 0"
  from b have "p \<in> set (connected_peers s)"
    by (simp add: connected_peers_iff [OF wf])
  with a b show "get_peer_connection (broadcast_packet env payload sz chan reliability s) p
             = map_option (\<lambda>c. c\<lparr>bytes_sent := bytes_sent c + ucast sz\<rparr>)
                 (get_peer_connection s p)"
    unfolding broadcast_packet_def get_peer_connection_def
    by (simp add: fold_send_stub_lookup connected_peers_distinct [OF wf])
next
  show "statuses (broadcast_packet env payload sz chan reliability s) = statuses s"
    by (simp add: broadcast_packet_def)
  show "callback_trace (broadcast_packet env payload sz chan reliability s) = callback_trace s"
    by (simp add: broadcast_packet_def)
next
  assume "connected_peers s = []"
  then show "broadcast_packet env payload sz chan reliability s = s"
    by (simp add: broadcast_packet_def)
qed

theorem broadcast_packet_fan_out_witness:
  "wf_connections mesh_state \<and>
   connected_peers mesh_state = [7, 9] \<and>
   is_connected_to mesh_state 7 \<and> \<not> is_connected_to mesh_state 8 \<and>
   is_connected_to mesh_state 9 \<and> \<not> is_connected_to mesh_state 10 \<and>
   sdk_log (broadcast_packet live_env (Some [1, 2, 3]) 3 0 UnreliableUnordered mesh_state) =
     [EOS_P2P_SendPacket
        \<lparr>LocalUserId = 305419896, RemoteUserId = 7, SocketName = ''GameSocket'',
         Channel = 0, DataLengthBytes = 3, Data = [1, 2, 3],
         Reliability = UnreliableUnordered\<rparr>,
      EOS_P2P_SendPacket
        \<lparr>LocalUserId = 305419896, RemoteUserId = 9, SocketName = ''GameSocket'',
         Channel = 0, DataLengthBytes = 3, Data = [1, 2, 3],
         Reliability = UnreliableUnordered\<rparr>] \<and>
   get_peer_connection
     (broadcast_packet live_env (Some [1, 2, 3]) 3 0 UnreliableUnordered mesh_state) 8
     = get_peer_connection mesh_state 8 \<and>
   get_peer_connection
     (broadcast_packet stub_env (Some [1, 2, 3]) 3 0 UnreliableUnordered mesh_state) 10
     = get_peer_connection mesh_state 10 \<and>
   map_option bytes_sent
     (get_peer_connection
        (broadcast_packet stub_env (Some [1, 2, 3]) 3 0 UnreliableUnordered mesh_state) 9)
     = Some 3 \<and>
   broadcast_packet live_env (Some [1, 2, 3]) 3 0 UnreliableUnordered ready_state = ready_state"
proof -
  have wf: "wf_connections mesh_state" "wf_connections ready_state"
    by (simp_all add: wf_connections_def mesh_state_def ready_state_def P2PManager_new_def)
  have cfg:
    "m_initialized mesh_state" "m_config mesh_state = P2PConfig_default"
    "sdk_log mesh_state = []"
    "connected_peers mesh_state = [7, 9]" "connected_peers ready_state = []"
    by (simp_all add: mesh_state_def ready_state_def P2PManager_new_def connected_peers_def
          PeerConnection_default_def)
  have conn:
    "is_connected_to mesh_state 7" "\<not> is_connected_to mesh_state 8"
    "is_connected_to mesh_state 9" "\<not> is_connected_to mesh_state 10"
    "map_option bytes_sent (get_peer_connection mesh_state 9) = Some 0"
    by (simp_all add: mesh_state_def is_connected_to_def get_peer_connection_def
          PeerConnection_default_def)
  note live = broadcast_packet_fan_out
                [OF wf(1), of live_env "Some [1, 2, 3]" 3 0 UnreliableUnordered]
  note stub = broadcast_packet_fan_out
                [OF wf(1), of stub_env "Some [1, 2, 3]" 3 0 UnreliableUnordered]
  note idle = broadcast_packet_fan_out
                [OF wf(2), of live_env "Some [1, 2, 3]" 3 0 UnreliableUnordered]
  have reach: "send_reaches_sdk live_env (Some [1, 2, 3]) 3 mesh_state"
    by (simp add: send_reaches_sdk_def cfg live_env_def P2PConfig_default_def)
  have valid: "EOS_STUB_MODE stub_env \<and> m_initialized mesh_state \<and> Some [1, 2, 3::8 word] \<noteq> None \<and>
      (3::32 word) \<noteq> 0 \<and> 3 \<le> max_packet_size (m_config mesh_state)"
    by (simp add: cfg stub_env_def P2PConfig_default_def)
  have log: "sdk_log (broadcast_packet live_env (Some [1, 2, 3]) 3 0 UnreliableUnordered mesh_state) =
     [EOS_P2P_SendPacket
        \<lparr>LocalUserId = 305419896, RemoteUserId = 7, SocketName = ''GameSocket'',
         Channel = 0, DataLengthBytes = 3, Data = [1, 2, 3],
         Reliability = UnreliableUnordered\<rparr>,
      EOS_P2P_SendPacket
        \<lparr>LocalUserId = 305419896, RemoteUserId = 9, SocketName = ''GameSocket'',
         Channel = 0, DataLengthBytes = 3, Data = [1, 2, 3],
         Reliability = UnreliableUnordered\<rparr>]"
    using live reach
    by (simp add: cfg send_options_def socket_id_of_def live_env_def P2PConfig_default_def)
  have e8: "get_peer_connection
     (broadcast_packet live_env (Some [1, 2, 3]) 3 0 UnreliableUnordered mesh_state) 8
     = get_peer_connection mesh_state 8"
    using live conn(2) by blast
  have e10: "get_peer_connection
     (broadcast_packet stub_env (Some [1, 2, 3]) 3 0 UnreliableUnordered mesh_state) 10
     = get_peer_connection mesh_state 10"
    using stub conn(4) by blast
  have "get_peer_connection
        (broadcast_packet stub_env (Some [1, 2, 3]) 3 0 UnreliableUnordered mesh_state) 9
     = map_option (\<lambda>c. c\<lparr>bytes_sent := bytes_sent c + ucast (3::32 word)\<rparr>)
         (get_peer_connection mesh_state 9)"
    using stub valid conn(3) by simp
  then have e9: "map_option bytes_sent
     (get_peer_connection
        (broadcast_packet stub_env (Some [1, 2, 3]) 3 0 UnreliableUnordered mesh_state) 9)
     = Some 3"
    by (simp add: mesh_state_def get_peer_connection_def PeerConnection_default_def)
  have none: "broadcast_packet live_env (Some [1, 2, 3]) 3 0 UnreliableUnordered ready_state
     = ready_state"
    using idle cfg(5) by blast
  show ?thesis
    using wf(1) cfg(4) conn(1-4) log e8 e10 e9 none by simp
qed

section \<open>\<open>receive_packets\<close>\<close>

lemma unat_inc: "r < m \<Longrightarrow> unat (r + 1) = Suc (unat r)" for r m :: "32 word"
proof -
  assume lt: "r < m"
  have "unat m < 2 ^ 32"
    using unsigned_less [of m, where 'a = nat] by simp
  with lt have "unat r + unat (1 :: 32 word) < 2 ^ LENGTH(32)"
    by (simp add: word_less_nat_alt)
  then show ?thesis
    by (simp add: unat_add_lem [THEN iffD1])
qed

lemma receive_loop_stub_result:
  "r \<le> m \<Longrightarrow>
   receive_loop_stub m r s =
     (r + of_nat (min (length (m_incoming_packets s)) (unat m - unat r)),
      s\<lparr>m_incoming_packets :=
           drop (min (length (m_incoming_packets s)) (unat m - unat r)) (m_incoming_packets s),
        callback_trace :=
           callback_trace s @
             (if on_packet_received s
              then map PacketReceived
                     (take (min (length (m_incoming_packets s)) (unat m - unat r))
                        (m_incoming_packets s))
              else [])\<rparr>)"
proof (induction m r s rule: receive_loop_stub.induct)
  case (1 m r s)
  show ?case
  proof (cases "m_incoming_packets s \<noteq> [] \<and> r < m")
    case False
    then have "min (length (m_incoming_packets s)) (unat m - unat r) = 0"
      using "1.prems" by (auto simp: word_less_nat_alt word_le_nat_alt)
    with False show ?thesis
      by (subst receive_loop_stub.simps) auto
  next
    case True
    then obtain x xs where q: "m_incoming_packets s = x # xs"
      by (cases "m_incoming_packets s") auto
    from True have lt: "r < m" by simp
    have le: "r + 1 \<le> m" by (rule inc_le [OF lt])
    have u: "unat (r + 1) = Suc (unat r)" by (rule unat_inc [OF lt])
    have pos: "unat m - unat r = Suc (unat m - Suc (unat r))"
      using lt by (simp add: word_less_nat_alt)
    let ?s2 = "fire_packet_received x (s\<lparr>m_incoming_packets := xs\<rparr>)"
    have step: "receive_loop_stub m r s = receive_loop_stub m (r + 1) ?s2"
      using True q by (subst receive_loop_stub.simps) (simp add: Let_def)
    have ih: "receive_loop_stub m (r + 1) ?s2 =
     (r + 1 + of_nat (min (length (m_incoming_packets ?s2)) (unat m - unat (r + 1))),
      ?s2\<lparr>m_incoming_packets :=
           drop (min (length (m_incoming_packets ?s2)) (unat m - unat (r + 1))) (m_incoming_packets ?s2),
        callback_trace :=
           callback_trace ?s2 @
             (if on_packet_received ?s2
              then map PacketReceived
                     (take (min (length (m_incoming_packets ?s2)) (unat m - unat (r + 1)))
                        (m_incoming_packets ?s2))
              else [])\<rparr>)"
      using True q le by (intro "1.IH") (simp_all add: Let_def)
    show ?thesis
      unfolding step ih
      by (simp add: q u pos fire_packet_received_def)
  qed
qed


lemma receive_loop_sdk_result:
  "r \<le> m \<Longrightarrow>
   receive_loop_sdk m r s =
     (let ds = leading_datagrams (sdk_receive_buffer s);
          n = min (length ds) (unat m - unat r);
          k = n + (if n < unat m - unat r \<and> n < length (sdk_receive_buffer s) then 1 else 0)
      in (r + of_nat n,
          (fold receive_step (take n ds) s)
             \<lparr>sdk_receive_buffer := drop k (sdk_receive_buffer s)\<rparr>))"
proof (induction m r s rule: receive_loop_sdk.induct)
  case (1 m r s)
  show ?case
  proof (cases "r < m")
    case False
    then have "unat m - unat r = 0"
      by (simp add: word_less_nat_alt)
    with False show ?thesis
      by (subst receive_loop_sdk.simps) (simp add: Let_def)
  next
    case lt: True
    have le: "r + 1 \<le> m" by (rule inc_le [OF lt])
    have u: "unat (r + 1) = Suc (unat r)" by (rule unat_inc [OF lt])
    have pos: "unat m - unat r = Suc (unat m - Suc (unat r))"
      using lt by (simp add: word_less_nat_alt)
    show ?thesis
    proof (cases "sdk_receive_buffer s")
      case Nil
      with lt show ?thesis
        by (subst receive_loop_sdk.simps) (simp add: Let_def)
    next
      case (Cons item rest)
      show ?thesis
      proof (cases item)
        case ReceiveFailure
        with lt Cons show ?thesis
          by (subst receive_loop_sdk.simps) (simp add: Let_def pos)
      next
        case (Datagram x)
        let ?s3 = "receive_step x (s\<lparr>sdk_receive_buffer := rest\<rparr>)"
        have s3: "fire_packet_received x
                    (add_bytes_received (sender x) (of_nat (length (data x)))
                       (s\<lparr>sdk_receive_buffer := rest\<rparr>)) = ?s3"
          by (simp add: receive_step_def)
        have step: "receive_loop_sdk m r s = receive_loop_sdk m (r + 1) ?s3"
          using lt Cons Datagram
          by (subst receive_loop_sdk.simps) (simp add: Let_def receive_step_def)
        have ih: "receive_loop_sdk m (r + 1) ?s3 =
           (let ds = leading_datagrams (sdk_receive_buffer ?s3);
                n = min (length ds) (unat m - unat (r + 1));
                k = n + (if n < unat m - unat (r + 1) \<and> n < length (sdk_receive_buffer ?s3)
                         then 1 else 0)
            in (r + 1 + of_nat n,
                (fold receive_step (take n ds) ?s3)
                   \<lparr>sdk_receive_buffer := drop k (sdk_receive_buffer ?s3)\<rparr>))"
          using "1.IH" [OF lt Cons Datagram refl refl refl le] unfolding s3
          by simp
        show ?thesis
          unfolding step ih
          by (simp add: Cons Datagram u pos Let_def receive_step_buffer
                fold_receive_step_buffer)
      qed
    qed
  qed
qed

lemma unat_of_nat_min: "unat (of_nat (min k (unat m)) :: 32 word) = min k (unat m)"
  for m :: "32 word"
  by (rule le_unat_uoi [of _ m]) simp

text \<open>
  C7. On an initialized manager \<open>receive_packets\<close> takes the first
  \<open>n = min (queue length) max_packets\<close> packets off the front of the queue, in queue
  order, and returns \<open>n\<close>, which is at most \<open>max_packets\<close>. With a packet handler
  registered the handler is invoked once per packet in that order, each invocation before
  the next packet is taken; with none registered the same packets are removed and nothing
  else happens. In the stub build the queue is \<open>m_incoming_packets\<close> and nothing but
  the queue and the trace of handler invocations changes. In the SDK build the queue is the
  SDK's receive buffer up to its first failure, and the call returns 0 without touching
  anything when the platform handle is missing.
\<close>

theorem receive_packets_drain:
  "m_initialized s \<longrightarrow>
     unat (fst (receive_packets env max_packets s)) \<le> unat max_packets \<and>
     (EOS_STUB_MODE env \<longrightarrow>
        (let n = min (length (m_incoming_packets s)) (unat max_packets) in
           unat (fst (receive_packets env max_packets s)) = n \<and>
           snd (receive_packets env max_packets s) =
             s\<lparr>m_incoming_packets := drop n (m_incoming_packets s),
               callback_trace :=
                 callback_trace s @
                   (if on_packet_received s
                    then map PacketReceived (take n (m_incoming_packets s))
                    else [])\<rparr>)) \<and>
     (\<not> EOS_STUB_MODE env \<and> get_handle env \<longrightarrow>
        (let ds = leading_datagrams (sdk_receive_buffer s);
             n = min (length ds) (unat max_packets);
             k = n + (if n < unat max_packets \<and> n < length (sdk_receive_buffer s)
                      then 1 else 0)
         in unat (fst (receive_packets env max_packets s)) = n \<and>
            callback_trace (snd (receive_packets env max_packets s)) =
              callback_trace s @
                (if on_packet_received s then map PacketReceived (take n ds) else []) \<and>
            sdk_receive_buffer (snd (receive_packets env max_packets s)) =
              drop k (sdk_receive_buffer s) \<and>
            m_incoming_packets (snd (receive_packets env max_packets s)) =
              m_incoming_packets s)) \<and>
     (\<not> EOS_STUB_MODE env \<and> \<not> get_handle env \<longrightarrow>
        receive_packets env max_packets s = (0, s))"
proof (intro impI conjI)
  assume init: "m_initialized s"
  show "unat (fst (receive_packets env max_packets s)) \<le> unat max_packets"
    using init
    by (simp add: receive_packets_def receive_loop_stub_result receive_loop_sdk_result
          Let_def unat_of_nat_min)
next
  assume "m_initialized s" and "EOS_STUB_MODE env"
  then show "let n = min (length (m_incoming_packets s)) (unat max_packets) in
           unat (fst (receive_packets env max_packets s)) = n \<and>
           snd (receive_packets env max_packets s) =
             s\<lparr>m_incoming_packets := drop n (m_incoming_packets s),
               callback_trace :=
                 callback_trace s @
                   (if on_packet_received s
                    then map PacketReceived (take n (m_incoming_packets s))
                    else [])\<rparr>"
    by (simp add: receive_packets_def receive_loop_stub_result Let_def unat_of_nat_min)
next
  assume "m_initialized s" and "\<not> EOS_STUB_MODE env \<and> get_handle env"
  then show "let ds = leading_datagrams (sdk_receive_buffer s);
             n = min (length ds) (unat max_packets);
             k = n + (if n < unat max_packets \<and> n < length (sdk_receive_buffer s)
                      then 1 else 0)
         in unat (fst (receive_packets env max_packets s)) = n \<and>
            callback_trace (snd (receive_packets env max_packets s)) =
              callback_trace s @
                (if on_packet_received s then map PacketReceived (take n ds) else []) \<and>
            sdk_receive_buffer (snd (receive_packets env max_packets s)) =
              drop k (sdk_receive_buffer s) \<and>
            m_incoming_packets (snd (receive_packets env max_packets s)) =
              m_incoming_packets s"
    by (simp add: receive_packets_def receive_loop_sdk_result Let_def unat_of_nat_min
          fold_receive_step_trace)
next
  assume "m_initialized s" and "\<not> EOS_STUB_MODE env \<and> \<not> get_handle env"
  then show "receive_packets env max_packets s = (0, s)"
    by (simp add: receive_packets_def)
qed

theorem receive_packets_drain_witness:
  "unat (fst (receive_packets stub_env 2 queued_state)) = 2 \<and>
   snd (receive_packets stub_env 2 queued_state) =
     queued_state
       \<lparr>m_incoming_packets := [packet_C],
        callback_trace := [PacketReceived packet_A, PacketReceived packet_B]\<rparr> \<and>
   unat (fst (receive_packets stub_env 2 (queued_state\<lparr>on_packet_received := False\<rparr>))) = 2 \<and>
   snd (receive_packets stub_env 2 (queued_state\<lparr>on_packet_received := False\<rparr>)) =
     queued_state\<lparr>on_packet_received := False, m_incoming_packets := [packet_C]\<rparr> \<and>
   unat (fst (receive_packets stub_env 100 queued_state)) = 3 \<and>
   unat (fst (receive_packets live_env 2 buffered_state)) = 2 \<and>
   callback_trace (snd (receive_packets live_env 2 buffered_state)) =
     [PacketReceived packet_A, PacketReceived packet_B] \<and>
   sdk_receive_buffer (snd (receive_packets live_env 2 buffered_state)) = [Datagram packet_C] \<and>
   receive_packets (live_env\<lparr>get_handle := False\<rparr>) 2 buffered_state = (0, buffered_state)"
proof -
  have q: "m_initialized queued_state" "on_packet_received queued_state"
    "m_incoming_packets queued_state = [packet_A, packet_B, packet_C]"
    "callback_trace queued_state = []"
    by (simp_all add: queued_state_def ready_state_def P2PManager_new_def)
  have b: "m_initialized buffered_state" "on_packet_received buffered_state"
    "sdk_receive_buffer buffered_state = [Datagram packet_A, Datagram packet_B, Datagram packet_C]"
    "callback_trace buffered_state = []"
    by (simp_all add: buffered_state_def ready_state_def P2PManager_new_def)
  have e: "EOS_STUB_MODE stub_env" "\<not> EOS_STUB_MODE live_env" "get_handle live_env"
    by (simp_all add: stub_env_def live_env_def)
  show ?thesis
    using receive_packets_drain [of queued_state stub_env 2]
      receive_packets_drain [of "queued_state\<lparr>on_packet_received := False\<rparr>" stub_env 2]
      receive_packets_drain [of queued_state stub_env 100]
      receive_packets_drain [of buffered_state live_env 2]
      receive_packets_drain [of buffered_state "live_env\<lparr>get_handle := False\<rparr>" 2]
    by (simp add: q b e Let_def)
qed

section \<open>One entry per peer\<close>

text \<open>
  \<open>wf_connections\<close> holds of a new manager and every operation and every notification
  handler keeps it: the table of the model never holds two entries for one peer.
\<close>

lemma wf_connections_new: "wf_connections P2PManager_new"
  by (simp add: wf_connections_def P2PManager_new_def)

lemma wf_connections_send_packet:
  "wf_connections s \<Longrightarrow> wf_connections (snd (send_packet env p payload n ch r s))"
  by (simp add: wf_connections_def)

lemma wf_connections_broadcast_packet:
  "wf_connections s \<Longrightarrow> wf_connections (broadcast_packet env payload n ch r s)"
proof -
  have "map fst (m_connections (fold (\<lambda>peer s'. snd (send_packet env peer payload n ch r s')) ps s))
          = map fst (m_connections s)" for ps
    by (induction ps arbitrary: s) simp_all
  then show "wf_connections s \<Longrightarrow> ?thesis"
    by (simp add: wf_connections_def broadcast_packet_def)
qed

lemma wf_connections_connect_to_peer:
  "wf_connections s \<Longrightarrow> wf_connections (connect_to_peer env p s)"
  by (simp add: wf_connections_def connect_to_peer_def Let_def distinct_update)

lemma wf_connections_disconnect_from_peer:
  "wf_connections s \<Longrightarrow> wf_connections (disconnect_from_peer env p s)"
  by (simp add: wf_connections_def disconnect_from_peer_def Let_def distinct_delete)

lemma wf_connections_disconnect_all:
  "wf_connections s \<Longrightarrow> wf_connections (disconnect_all env s)"
proof -
  have "wf_connections s \<Longrightarrow>
        wf_connections (fold (\<lambda>peer s'. disconnect_from_peer env peer s') ps s)" for ps
    by (induction ps arbitrary: s) (simp_all add: wf_connections_disconnect_from_peer)
  then show "wf_connections s \<Longrightarrow> ?thesis"
    by (simp add: disconnect_all_def)
qed

lemma wf_connections_shutdown: "wf_connections s \<Longrightarrow> wf_connections (shutdown env s)"
  by (simp add: wf_connections_def shutdown_def Let_def)

lemma wf_connections_initialize:
  "wf_connections s \<Longrightarrow> wf_connections (snd (initialize env config s))"
  by (simp add: wf_connections_def initialize_def register_callbacks_def Let_def)

lemma wf_connections_accept_connections:
  "wf_connections s \<Longrightarrow> wf_connections (accept_connections env p s)"
  by (simp add: wf_connections_def accept_connections_def)

lemma wf_connections_receive_packets:
  "wf_connections s \<Longrightarrow> wf_connections (snd (receive_packets env n s))"
  by (simp add: wf_connections_def receive_packets_def receive_loop_stub_result
        receive_loop_sdk_result Let_def)

lemma wf_connections_handlers:
  "wf_connections s \<Longrightarrow> wf_connections (handle_connection_request env p s)"
  "wf_connections s \<Longrightarrow> wf_connections (handle_connection_established p s)"
  "wf_connections s \<Longrightarrow> wf_connections (handle_connection_closed p s)"
  by (simp_all add: wf_connections_def handle_connection_request_def accept_connections_def
        handle_connection_established_def handle_connection_closed_def Let_def
        distinct_update distinct_delete split: option.splits)

section \<open>\<open>connect_to_peer\<close>\<close>

lemma connect_to_peer_sdk:
  assumes "m_initialized s" "peer \<noteq> 0" "\<not> EOS_STUB_MODE env"
  shows "get_peer_connection (connect_to_peer env peer s) peer
           = Some (PeerConnection_default\<lparr>peer_id := peer, status := Connecting\<rparr>)"
    and "q \<noteq> peer \<Longrightarrow> get_peer_connection (connect_to_peer env peer s) q = get_peer_connection s q"
    and "sdk_log (connect_to_peer env peer s) =
           sdk_log s @
             (if get_handle env \<and> 1 \<le> max_packet_size (m_config s)
              then [EOS_P2P_SendPacket (send_options env peer (Some [1]) 1 0 ReliableOrdered s)]
              else [])"
    and "callback_trace (connect_to_peer env peer s) = callback_trace s"
  using assms
  by (auto simp: connect_to_peer_def get_peer_connection_def Let_def update_conv'
        send_packet_lookup_other send_packet_sdk_log send_reaches_sdk_def)

lemma connect_to_peer_stub:
  assumes "m_initialized s" "peer \<noteq> 0" "EOS_STUB_MODE env"
  shows "get_peer_connection (connect_to_peer env peer s) peer
           = Some (PeerConnection_default
                     \<lparr>peer_id := peer, display_name := ''StubPeer'', status := Connected,
                      is_relay := False, ping_ms := 25\<rparr>)"
    and "q \<noteq> peer \<Longrightarrow> get_peer_connection (connect_to_peer env peer s) q = get_peer_connection s q"
    and "sdk_log (connect_to_peer env peer s) = sdk_log s"
    and "callback_trace (connect_to_peer env peer s) =
           callback_trace s @
             (if on_connection_established s then [ConnectionEstablished peer Connected] else [])"
  using assms
  by (auto simp: connect_to_peer_def get_peer_connection_def Let_def update_conv')

text \<open>
  C3, as amended. \<open>connect_to_peer\<close> on an initialized manager and a peer that is not
  null does not look at the entry the peer may have. In the SDK build it passes the
  one-byte hello \<open>[1]\<close> on channel 0 with \<open>ReliableOrdered\<close> to \<open>send_packet\<close>, which
  hands it to the SDK when the platform handle is there and \<open>max_packet_size\<close> is at
  least 1, and then sets the peer's entry to a fresh one in \<open>Connecting\<close>. In the stub
  build it sends nothing, sets the entry to a fresh one in \<open>Connected\<close> and invokes the
  on-connected handler. The entries of other peers stay as they are.
\<close>

theorem connect_to_peer_unconditional:
  "m_initialized s \<and> peer \<noteq> 0 \<longrightarrow>
     (\<forall>q. q \<noteq> peer \<longrightarrow>
        get_peer_connection (connect_to_peer env peer s) q = get_peer_connection s q) \<and>
     (\<not> EOS_STUB_MODE env \<longrightarrow>
        get_peer_connection (connect_to_peer env peer s) peer
          = Some (PeerConnection_default\<lparr>peer_id := peer, status := Connecting\<rparr>) \<and>
        sdk_log (connect_to_peer env peer s) =
          sdk_log s @
            (if get_handle env \<and> 1 \<le> max_packet_size (m_config s)
             then [EOS_P2P_SendPacket
                     (send_options env peer (Some [1]) 1 0 ReliableOrdered s)]
             else []) \<and>
        callback_trace (connect_to_peer env peer s) = callback_trace s) \<and>
     (EOS_STUB_MODE env \<longrightarrow>
        get_peer_connection (connect_to_peer env peer s) peer
          = Some (PeerConnection_default
                    \<lparr>peer_id := peer, display_name := ''StubPeer'', status := Connected,
                     is_relay := False, ping_ms := 25\<rparr>) \<and>
        sdk_log (connect_to_peer env peer s) = sdk_log s \<and>
        callback_trace (connect_to_peer env peer s) =
          callback_trace s @
            (if on_connection_established s
             then [ConnectionEstablished peer Connected] else []))"
  using connect_to_peer_sdk [of s peer env] connect_to_peer_stub [of s peer env]
  by (cases "EOS_STUB_MODE env") auto

theorem connect_to_peer_unconditional_witness:
  "map_option status (get_peer_connection (connect_to_peer live_env 7 mesh_state) 7)
     = Some Connecting \<and>
   get_peer_connection (connect_to_peer live_env 7 mesh_state) 9
     = get_peer_connection mesh_state 9 \<and>
   sdk_log (connect_to_peer live_env 7 mesh_state) =
     [EOS_P2P_SendPacket
        \<lparr>LocalUserId = 305419896, RemoteUserId = 7, SocketName = ''GameSocket'',
         Channel = 0, DataLengthBytes = 1, Data = [1], Reliability = ReliableOrdered\<rparr>] \<and>
   callback_trace (connect_to_peer live_env 7 mesh_state) = [] \<and>
   map_option status (get_peer_connection (connect_to_peer stub_env 8 mesh_state) 8)
     = Some Connected \<and>
   callback_trace (connect_to_peer stub_env 8 mesh_state) = [ConnectionEstablished 8 Connected]"
proof -
  have m: "m_initialized mesh_state" "sdk_log mesh_state = []" "callback_trace mesh_state = []"
    "on_connection_established mesh_state" "max_packet_size (m_config mesh_state) = 1170"
    by (simp_all add: mesh_state_def ready_state_def P2PManager_new_def P2PConfig_default_def)
  have e: "\<not> EOS_STUB_MODE live_env" "get_handle live_env" "EOS_STUB_MODE stub_env"
    by (simp_all add: live_env_def stub_env_def)
  note live = connect_to_peer_unconditional [of mesh_state 7 live_env]
  note stub = connect_to_peer_unconditional [of mesh_state 8 stub_env]
  have "get_peer_connection (connect_to_peer live_env 7 mesh_state) 9
     = get_peer_connection mesh_state 9"
    using live m(1) by auto
  moreover have "sdk_log (connect_to_peer live_env 7 mesh_state) =
     [EOS_P2P_SendPacket (send_options live_env 7 (Some [1]) 1 0 ReliableOrdered mesh_state)]"
    using live m e by simp
  ultimately show ?thesis
    using live stub m e
    by (simp add: send_options_def socket_id_of_def mesh_state_def ready_state_def
          P2PManager_new_def P2PConfig_default_def live_env_def PeerConnection_default_def)
qed

text \<open>
  C3 as the spec has it fails in the SDK build: a second \<open>connect_to_peer\<close> for a peer
  in \<open>Connecting\<close> hands a second hello to the SDK, and for a peer in \<open>Connected\<close>
  it is no no-op: the entry is back in \<open>Connecting\<close> and one more hello is in the log.
\<close>

theorem connect_to_peer_idempotent_counterexample:
  "sdk_log (connect_to_peer live_env 7 ready_state) =
     [EOS_P2P_SendPacket
        \<lparr>LocalUserId = 305419896, RemoteUserId = 7, SocketName = ''GameSocket'',
         Channel = 0, DataLengthBytes = 1, Data = [1], Reliability = ReliableOrdered\<rparr>] \<and>
   map_option status (get_peer_connection (connect_to_peer live_env 7 ready_state) 7)
     = Some Connecting \<and>
   sdk_log (connect_to_peer live_env 7 (connect_to_peer live_env 7 ready_state)) =
     [EOS_P2P_SendPacket
        \<lparr>LocalUserId = 305419896, RemoteUserId = 7, SocketName = ''GameSocket'',
         Channel = 0, DataLengthBytes = 1, Data = [1], Reliability = ReliableOrdered\<rparr>,
      EOS_P2P_SendPacket
        \<lparr>LocalUserId = 305419896, RemoteUserId = 7, SocketName = ''GameSocket'',
         Channel = 0, DataLengthBytes = 1, Data = [1], Reliability = ReliableOrdered\<rparr>] \<and>
   is_connected_to mesh_state 7 \<and>
   \<not> is_connected_to (connect_to_peer live_env 7 mesh_state) 7 \<and>
   connect_to_peer live_env 7 mesh_state \<noteq> mesh_state"
proof -
  have a: "sdk_log (connect_to_peer live_env 7 mesh_state) \<noteq> sdk_log mesh_state"
    by (simp add: eval_defs)
  have "connect_to_peer live_env 7 mesh_state \<noteq> mesh_state"
    using a by auto
  then show ?thesis
    by (simp add: eval_defs)
qed

section \<open>\<open>disconnect_from_peer\<close>\<close>

lemma delete_absent: "map_of al k = None \<Longrightarrow> AList.delete k al = al"
  by (simp add: map_of_eq_None_iff)

lemma disconnect_from_peer_registry:
  "get_peer_connection s peer = None \<Longrightarrow>
   m_connections (disconnect_from_peer env peer s) = m_connections s"
  by (simp add: disconnect_from_peer_def get_peer_connection_def delete_absent Let_def)

lemma disconnect_from_peer_stub:
  assumes "m_initialized s" "peer \<noteq> 0" "EOS_STUB_MODE env"
  shows "get_peer_connection (disconnect_from_peer env peer s) peer = None"
    and "q \<noteq> peer \<Longrightarrow>
           get_peer_connection (disconnect_from_peer env peer s) q = get_peer_connection s q"
    and "callback_trace (disconnect_from_peer env peer s) =
           callback_trace s @
             (if on_connection_closed s then [ConnectionClosed peer Disconnected] else [])"
    and "sdk_log (disconnect_from_peer env peer s) = sdk_log s"
  using assms
  by (simp_all add: disconnect_from_peer_def get_peer_connection_def delete_conv')

lemma disconnect_from_peer_sdk:
  assumes "m_initialized s" "peer \<noteq> 0" "\<not> EOS_STUB_MODE env" "get_handle env"
  shows "get_peer_connection (disconnect_from_peer env peer s) peer = None"
    and "q \<noteq> peer \<Longrightarrow>
           get_peer_connection (disconnect_from_peer env peer s) q = get_peer_connection s q"
    and "callback_trace (disconnect_from_peer env peer s) = callback_trace s"
    and "sdk_log (disconnect_from_peer env peer s) =
           sdk_log s @
             [EOS_P2P_CloseConnection (get_product_user_id env) peer (socket_id_of env s)]"
  using assms
  by (simp_all add: disconnect_from_peer_def get_peer_connection_def delete_conv' Let_def)

lemma handle_connection_closed_effect:
  "get_peer_connection (handle_connection_closed peer s) peer = None"
  "q \<noteq> peer \<Longrightarrow> get_peer_connection (handle_connection_closed peer s) q = get_peer_connection s q"
  "callback_trace (handle_connection_closed peer s) =
     callback_trace s @
       (if on_connection_closed s then [ConnectionClosed peer Disconnected] else [])"
  by (simp_all add: handle_connection_closed_def get_peer_connection_def delete_conv')

text \<open>
  C4, as amended. On an initialized manager and for a peer that is not null,
  \<open>disconnect_from_peer\<close> leaves the table as it is when the peer has no entry, and
  otherwise removes the peer's entry and no other; it reports no error. In the stub build
  it invokes the connection-closed handler with \<open>Disconnected\<close> whenever one is
  registered, for a peer with and without an entry alike, and makes no call to the SDK. In
  the SDK build with a platform handle it invokes no handler: it calls
  \<^verbatim>\<open>EOS_P2P_CloseConnection\<close> for the peer, with and without an entry alike, and the
  handler runs with \<open>Disconnected\<close> when the SDK's connection-closed notification is
  handled; with no platform handle it does nothing.
\<close>

theorem disconnect_from_peer_effect:
  "(get_peer_connection s peer = None \<longrightarrow>
      m_connections (disconnect_from_peer env peer s) = m_connections s) \<and>
   (m_initialized s \<and> peer \<noteq> 0 \<longrightarrow>
      (\<forall>q. q \<noteq> peer \<longrightarrow>
         get_peer_connection (disconnect_from_peer env peer s) q = get_peer_connection s q) \<and>
      (EOS_STUB_MODE env \<longrightarrow>
         get_peer_connection (disconnect_from_peer env peer s) peer = None \<and>
         callback_trace (disconnect_from_peer env peer s) =
           callback_trace s @
             (if on_connection_closed s then [ConnectionClosed peer Disconnected] else []) \<and>
         sdk_log (disconnect_from_peer env peer s) = sdk_log s) \<and>
      (\<not> EOS_STUB_MODE env \<and> get_handle env \<longrightarrow>
         get_peer_connection (disconnect_from_peer env peer s) peer = None \<and>
         callback_trace (disconnect_from_peer env peer s) = callback_trace s \<and>
         sdk_log (disconnect_from_peer env peer s) =
           sdk_log s @
             [EOS_P2P_CloseConnection (get_product_user_id env) peer (socket_id_of env s)]) \<and>
      (\<not> EOS_STUB_MODE env \<and> \<not> get_handle env \<longrightarrow>
         disconnect_from_peer env peer s = s)) \<and>
   get_peer_connection (handle_connection_closed peer s) peer = None \<and>
   callback_trace (handle_connection_closed peer s) =
     callback_trace s @
       (if on_connection_closed s then [ConnectionClosed peer Disconnected] else [])"
proof (intro conjI impI allI)
  assume "get_peer_connection s peer = None"
  then show "m_connections (disconnect_from_peer env peer s) = m_connections s"
    by (rule disconnect_from_peer_registry)
next
  fix q assume "m_initialized s \<and> peer \<noteq> 0" "q \<noteq> peer"
  then show "get_peer_connection (disconnect_from_peer env peer s) q = get_peer_connection s q"
    by (simp add: disconnect_from_peer_def get_peer_connection_def delete_conv' Let_def)
next
  assume a: "m_initialized s \<and> peer \<noteq> 0" "EOS_STUB_MODE env"
  show "get_peer_connection (disconnect_from_peer env peer s) peer = None"
    using a by (simp add: disconnect_from_peer_stub)
  show "callback_trace (disconnect_from_peer env peer s) =
           callback_trace s @
             (if on_connection_closed s then [ConnectionClosed peer Disconnected] else [])"
    using a disconnect_from_peer_stub(3) [of s peer env] by simp
  show "sdk_log (disconnect_from_peer env peer s) = sdk_log s"
    using a by (simp add: disconnect_from_peer_stub)
next
  assume a: "m_initialized s \<and> peer \<noteq> 0" "\<not> EOS_STUB_MODE env \<and> get_handle env"
  show "get_peer_connection (disconnect_from_peer env peer s) peer = None"
    using a by (simp add: disconnect_from_peer_sdk)
  show "callback_trace (disconnect_from_peer env peer s) = callback_trace s"
    using a by (simp add: disconnect_from_peer_sdk)
  show "sdk_log (disconnect_from_peer env peer s) =
           sdk_log s @
             [EOS_P2P_CloseConnection (get_product_user_id env) peer (socket_id_of env s)]"
    using a by (simp add: disconnect_from_peer_sdk)
next
  assume "m_initialized s \<and> peer \<noteq> 0" "\<not> EOS_STUB_MODE env \<and> \<not> get_handle env"
  then show "disconnect_from_peer env peer s = s"
    by (simp add: disconnect_from_peer_def)
next
  show "get_peer_connection (handle_connection_closed peer s) peer = None"
    by (rule handle_connection_closed_effect)
  show "callback_trace (handle_connection_closed peer s) =
     callback_trace s @
       (if on_connection_closed s then [ConnectionClosed peer Disconnected] else [])"
    by (rule handle_connection_closed_effect)
qed

theorem disconnect_from_peer_effect_witness:
  "m_connections (disconnect_from_peer live_env 11 mesh_state) = m_connections mesh_state \<and>
   callback_trace (disconnect_from_peer live_env 11 mesh_state) = [] \<and>
   get_peer_connection (disconnect_from_peer live_env 8 mesh_state) 8 = None \<and>
   get_peer_connection (disconnect_from_peer live_env 8 mesh_state) 7
     = get_peer_connection mesh_state 7 \<and>
   sdk_log (disconnect_from_peer live_env 8 mesh_state) =
     [EOS_P2P_CloseConnection 305419896 8 ''GameSocket''] \<and>
   get_peer_connection (disconnect_from_peer stub_env 8 mesh_state) 8 = None \<and>
   callback_trace (disconnect_from_peer stub_env 8 mesh_state) = [ConnectionClosed 8 Disconnected] \<and>
   disconnect_from_peer (live_env\<lparr>get_handle := False\<rparr>) 8 mesh_state = mesh_state"
proof -
  have m: "m_initialized mesh_state" "sdk_log mesh_state = []" "callback_trace mesh_state = []"
    "on_connection_closed mesh_state" "get_peer_connection mesh_state 11 = None"
    "socket_id_of live_env mesh_state = ''GameSocket''"
    by (simp_all add: eval_defs)
  have e: "\<not> EOS_STUB_MODE live_env" "get_handle live_env" "EOS_STUB_MODE stub_env"
    "get_product_user_id live_env = 305419896"
    by (simp_all add: live_env_def stub_env_def)
  note unknown = disconnect_from_peer_effect [of mesh_state 11 live_env]
  note live = disconnect_from_peer_effect [of mesh_state 8 live_env]
  note stub = disconnect_from_peer_effect [of mesh_state 8 stub_env]
  note off = disconnect_from_peer_effect [of mesh_state 8 "live_env\<lparr>get_handle := False\<rparr>"]
  have "get_peer_connection (disconnect_from_peer live_env 8 mesh_state) 7
     = get_peer_connection mesh_state 7"
    using live m(1) by auto
  then show ?thesis
    using unknown live stub off m e by simp
qed

text \<open>
  C4 as the spec has it fails in both builds. In the stub build peer 7 has no entry and
  the connection-closed handler runs all the same; in the SDK build peer 7 has an entry,
  the entry is removed and no handler runs.
\<close>

theorem disconnect_from_peer_counterexample:
  "get_peer_connection ready_state 7 = None \<and>
   callback_trace ready_state = [] \<and>
   callback_trace (disconnect_from_peer stub_env 7 ready_state) = [ConnectionClosed 7 Disconnected] \<and>
   get_peer_connection mesh_state 7 \<noteq> None \<and>
   get_peer_connection (disconnect_from_peer live_env 7 mesh_state) 7 = None \<and>
   callback_trace (disconnect_from_peer live_env 7 mesh_state) = []"
  by (simp add: eval_defs)

section \<open>Incoming connection requests\<close>

text \<open>
  C5, as amended. The manager keeps no accept filter: \<open>accept_connections\<close> stores
  nothing, and a connection request from any peer is passed on to \<open>accept_connections\<close>
  for that peer. So after \<open>accept_connections\<close> for a peer \<open>Q\<close>, a request from a peer
  \<open>R\<close>, equal to \<open>Q\<close> or not, is accepted: on an initialized manager of the SDK build
  with a platform handle \<^verbatim>\<open>EOS_P2P_AcceptConnection\<close> is called for \<open>R\<close>. A request,
  from whichever peer, creates no entry and runs no handler. The entry of a peer becomes
  \<open>Connected\<close> and the on-connected handler runs once when the SDK's
  connection-established notification for that peer is handled.
\<close>

theorem connection_request_auto_accept:
  "m_connections (accept_connections env Q s) = m_connections s \<and>
   callback_trace (accept_connections env Q s) = callback_trace s \<and>
   m_connections (handle_connection_request env R (accept_connections env Q s))
     = m_connections s \<and>
   callback_trace (handle_connection_request env R (accept_connections env Q s))
     = callback_trace s \<and>
   sdk_log (handle_connection_request env R (accept_connections env Q s)) =
     sdk_log s @
       (if m_initialized s \<and> \<not> EOS_STUB_MODE env \<and> get_handle env
        then [EOS_P2P_AcceptConnection (get_product_user_id env) Q (socket_id_of env s),
              EOS_P2P_AcceptConnection (get_product_user_id env) R (socket_id_of env s)]
        else []) \<and>
   is_connected_to (handle_connection_established Q s) Q \<and>
   callback_trace (handle_connection_established Q s) =
     callback_trace s @
       (if on_connection_established s then [ConnectionEstablished Q Connected] else [])"
  by (simp add: handle_connection_request_def accept_connections_def socket_id_of_def
        handle_connection_established_def is_connected_to_def update_conv' Let_def
        split: option.splits)

text \<open>
  C5 as the spec has it fails: after \<open>accept_connections\<close> for peer 7 the request of
  peer 9 is not dropped, the SDK is told to accept it; and the request of peer 7 itself
  creates no entry and runs no handler.
\<close>

theorem accept_filter_counterexample:
  "sdk_log (handle_connection_request live_env 9 (accept_connections live_env 7 ready_state)) =
     [EOS_P2P_AcceptConnection 305419896 7 ''GameSocket'',
      EOS_P2P_AcceptConnection 305419896 9 ''GameSocket''] \<and>
   m_connections (handle_connection_request live_env 7 (accept_connections live_env 7 ready_state))
     = [] \<and>
   callback_trace (handle_connection_request live_env 7 (accept_connections live_env 7 ready_state))
     = [] \<and>
   \<not> is_connected_to
       (handle_connection_request live_env 7 (accept_connections live_env 7 ready_state)) 7"
  by (simp add: eval_defs)

section \<open>How a peer becomes connected\<close>

lemma statuses_update_other [simp]:
  "statuses (s\<lparr>sdk_receive_buffer := b\<rparr>) = statuses s"
  "statuses (s\<lparr>m_incoming_packets := q\<rparr>) = statuses s"
  "statuses (s\<lparr>callback_trace := tr\<rparr>) = statuses s"
  by (simp_all add: statuses_def)

lemma is_connected_to_statuses:
  "is_connected_to s p \<longleftrightarrow> map_of (statuses s) p = Some Connected"
proof -
  have "map_of (map (\<lambda>pair. (fst pair, status (snd pair))) al) p
          = map_option status (map_of al p)" for al :: "(nat \<times> PeerConnection) list"
    by (induction al) auto
  then show ?thesis
    by (auto simp: is_connected_to_def statuses_def split: option.splits)
qed

lemma receive_packets_statuses:
  "statuses (snd (receive_packets env n s)) = statuses s"
  by (simp add: receive_packets_def receive_loop_stub_result receive_loop_sdk_result Let_def)

lemma receive_packets_trace:
  "\<exists>packets. callback_trace (snd (receive_packets env n s))
      = callback_trace s @ map PacketReceived packets"
proof -
  have nil: "callback_trace s = callback_trace s @ map PacketReceived []"
    by simp
  have "\<exists>packets. tr @ (if b then map PacketReceived xs else []) = tr @ map PacketReceived packets"
    for tr b xs
    by (cases b) auto
  then show ?thesis
    using nil
    by (auto simp: receive_packets_def receive_loop_stub_result receive_loop_sdk_result
          Let_def fold_receive_step_trace simp del: append_Nil2 list.map)
qed

lemma handle_connection_established_effect:
  "is_connected_to (handle_connection_established P s) P"
  "q \<noteq> P \<Longrightarrow> get_peer_connection (handle_connection_established P s) q = get_peer_connection s q"
  "callback_trace (handle_connection_established P s) =
     callback_trace s @
       (if on_connection_established s then [ConnectionEstablished P Connected] else [])"
  by (simp_all add: handle_connection_established_def is_connected_to_def
        get_peer_connection_def update_conv' Let_def split: option.splits)

lemma count_after_drain:
  assumes "callback_trace s1 = callback_trace s @ [ConnectionEstablished P Connected]"
  shows "count_list (callback_trace (snd (receive_packets env n s1)))
           (ConnectionEstablished P Connected)
         = count_list (callback_trace s) (ConnectionEstablished P Connected) + 1"
proof -
  obtain packets where
    "callback_trace (snd (receive_packets env n s1))
       = callback_trace s1 @ map PacketReceived packets"
    using receive_packets_trace by blast
  moreover have "ConnectionEstablished P Connected \<notin> set (map PacketReceived packets)"
    by auto
  ultimately show ?thesis
    using assms by (simp del: set_map)
qed

lemma connected_after_drain:
  "is_connected_to s1 P \<Longrightarrow> is_connected_to (snd (receive_packets env n s1)) P"
  by (simp add: is_connected_to_statuses receive_packets_statuses)

text \<open>
  C1, as amended. Receiving packets changes no status, creates no entry and never invokes
  the on-connected handler: \<open>receive_packets\<close> leaves the peers and their statuses as
  they are and adds only invocations of the packet handler to the trace. The entry of a
  peer becomes \<open>Connected\<close>, and is created if the peer has none, when the SDK's
  connection-established notification for the peer is handled; the on-connected handler
  then runs once, and the entries of other peers stay as they are. In the stub build
  \<open>connect_to_peer\<close> itself sets the entry to \<open>Connected\<close> and runs the handler once.
  So after \<open>connect_to_peer\<close> in the stub build, or after the notification in the SDK
  build, a following \<open>receive_packets\<close> finds the peer connected and the handler has run
  exactly once more than before, whatever packets the batch holds.
\<close>

theorem connected_by_notification_not_by_packet:
  "statuses (snd (receive_packets env max_packets s)) = statuses s \<and>
   (\<exists>packets. callback_trace (snd (receive_packets env max_packets s))
      = callback_trace s @ map PacketReceived packets) \<and>
   is_connected_to (handle_connection_established P s) P \<and>
   (\<forall>q. q \<noteq> P \<longrightarrow>
      get_peer_connection (handle_connection_established P s) q = get_peer_connection s q) \<and>
   callback_trace (handle_connection_established P s) =
     callback_trace s @
       (if on_connection_established s then [ConnectionEstablished P Connected] else []) \<and>
   (on_connection_established s \<longrightarrow>
      is_connected_to
        (snd (receive_packets env max_packets (handle_connection_established P s))) P \<and>
      count_list
        (callback_trace (snd (receive_packets env max_packets (handle_connection_established P s))))
        (ConnectionEstablished P Connected)
        = count_list (callback_trace s) (ConnectionEstablished P Connected) + 1) \<and>
   (EOS_STUB_MODE env \<and> m_initialized s \<and> P \<noteq> 0 \<and> on_connection_established s \<longrightarrow>
      is_connected_to (snd (receive_packets env max_packets (connect_to_peer env P s))) P \<and>
      count_list
        (callback_trace (snd (receive_packets env max_packets (connect_to_peer env P s))))
        (ConnectionEstablished P Connected)
        = count_list (callback_trace s) (ConnectionEstablished P Connected) + 1)"
proof (intro conjI impI allI)
  show "statuses (snd (receive_packets env max_packets s)) = statuses s"
    by (rule receive_packets_statuses)
  show "\<exists>packets. callback_trace (snd (receive_packets env max_packets s))
      = callback_trace s @ map PacketReceived packets"
    by (rule receive_packets_trace)
  show "is_connected_to (handle_connection_established P s) P"
    by (rule handle_connection_established_effect)
  show "callback_trace (handle_connection_established P s) =
     callback_trace s @
       (if on_connection_established s then [ConnectionEstablished P Connected] else [])"
    by (rule handle_connection_established_effect)
next
  fix q assume "q \<noteq> P"
  then show "get_peer_connection (handle_connection_established P s) q = get_peer_connection s q"
    by (rule handle_connection_established_effect)
next
  assume h: "on_connection_established s"
  show "is_connected_to
        (snd (receive_packets env max_packets (handle_connection_established P s))) P"
    by (rule connected_after_drain) (rule handle_connection_established_effect)
  show "count_list
        (callback_trace (snd (receive_packets env max_packets (handle_connection_established P s))))
        (ConnectionEstablished P Connected)
        = count_list (callback_trace s) (ConnectionEstablished P Connected) + 1"
    by (rule count_after_drain) (simp add: handle_connection_established_effect h)
next
  assume a: "EOS_STUB_MODE env \<and> m_initialized s \<and> P \<noteq> 0 \<and> on_connection_established s"
  have "is_connected_to (connect_to_peer env P s) P"
    using a connect_to_peer_stub(1) [of s P env]
    by (simp add: is_connected_to_def get_peer_connection_def)
  then show "is_connected_to (snd (receive_packets env max_packets (connect_to_peer env P s))) P"
    by (rule connected_after_drain)
  show "count_list
        (callback_trace (snd (receive_packets env max_packets (connect_to_peer env P s))))
        (ConnectionEstablished P Connected)
        = count_list (callback_trace s) (ConnectionEstablished P Connected) + 1"
    using a by (intro count_after_drain) (simp add: connect_to_peer_stub)
qed

theorem connected_by_notification_not_by_packet_witness:
  "is_connected_to
     (snd (receive_packets live_env 100
        (handle_connection_established 7 (connect_to_peer live_env 7 buffered_state)))) 7 \<and>
   count_list
     (callback_trace
        (snd (receive_packets live_env 100
           (handle_connection_established 7 (connect_to_peer live_env 7 buffered_state)))))
     (ConnectionEstablished 7 Connected) = 1 \<and>
   is_connected_to
     (snd (receive_packets stub_env 100 (connect_to_peer stub_env 7 queued_state))) 7 \<and>
   count_list
     (callback_trace (snd (receive_packets stub_env 100 (connect_to_peer stub_env 7 queued_state))))
     (ConnectionEstablished 7 Connected) = 1 \<and>
   is_connected_to (handle_connection_established 8 mesh_state) 8 \<and>
   get_peer_connection (handle_connection_established 8 mesh_state) 10
     = get_peer_connection mesh_state 10 \<and>
   statuses (snd (receive_packets live_env 100 (connect_to_peer live_env 7 buffered_state)))
     = [(7, Connecting)]"
proof -
  have b: "on_connection_established (connect_to_peer live_env 7 buffered_state)"
    "callback_trace (connect_to_peer live_env 7 buffered_state) = []"
    "statuses (connect_to_peer live_env 7 buffered_state) = [(7, Connecting)]"
    by (simp_all add: eval_defs buffered_state_def statuses_def)
  have q: "m_initialized queued_state" "on_connection_established queued_state"
    "callback_trace queued_state = []" "EOS_STUB_MODE stub_env"
    by (simp_all add: eval_defs queued_state_def)
  note other = connected_by_notification_not_by_packet [of live_env 100 mesh_state 8]
  have "get_peer_connection (handle_connection_established 8 mesh_state) 10
     = get_peer_connection mesh_state 10"
    using other by auto
  then show ?thesis
    using connected_by_notification_not_by_packet
            [of live_env 100 "connect_to_peer live_env 7 buffered_state" 7]
          connected_by_notification_not_by_packet [of stub_env 100 queued_state 7]
          other
    by (simp add: b q)
qed

text \<open>
  C1 as the spec has it fails in the SDK build. Peer 7 is in \<open>Connecting\<close> after
  \<open>connect_to_peer\<close>; its hello and an application packet are received in one batch of
  \<open>receive_packets\<close>; afterwards peer 7 is still in \<open>Connecting\<close> and only the packet
  handler has run. Peer 9 has no entry, its packet is received, and it has no entry
  afterwards.
\<close>

theorem packet_receipt_connects_counterexample:
  "map_option status
     (get_peer_connection (connect_to_peer live_env 7 buffered_state) 7) = Some Connecting \<and>
   fst (receive_packets live_env 100 (connect_to_peer live_env 7 buffered_state)) = 3 \<and>
   map_option status
     (get_peer_connection
        (snd (receive_packets live_env 100 (connect_to_peer live_env 7 buffered_state))) 7)
     = Some Connecting \<and>
   get_peer_connection
     (snd (receive_packets live_env 100 (connect_to_peer live_env 7 buffered_state))) 9 = None \<and>
   callback_trace
     (snd (receive_packets live_env 100 (connect_to_peer live_env 7 buffered_state)))
     = [PacketReceived packet_A, PacketReceived packet_B, PacketReceived packet_C]"
  by (simp add: receive_packets_def receive_loop_sdk_result receive_step_def eval_defs
        buffered_state_def packet_A_def packet_B_def packet_C_def)

section \<open>The byte counters\<close>

lemma unat_ucast_32_64: "unat (ucast b :: 64 word) = unat b" for b :: "32 word"
proof -
  have "unat b < 2 ^ 32"
    using unsigned_less [of b, where 'a = nat] by simp
  then have "unat b < 2 ^ 64"
    by (rule less_le_trans) simp
  then show ?thesis
    by (simp add: unsigned_ucast_eq take_bit_nat_eq_self)
qed

lemma counter_add_no_wrap:
  "unat a + unat b < 2 ^ 64 \<Longrightarrow> unat (a + ucast b) = unat a + unat b"
  for a :: "64 word" and b :: "32 word"
  using unat_add_lem [of a "ucast b :: 64 word"] by (simp add: unat_ucast_32_64)

lemma counter_add_le:
  "unat a + unat b < 2 ^ 64 \<Longrightarrow> a \<le> a + ucast b"
  for a :: "64 word" and b :: "32 word"
  by (simp add: word_le_nat_alt counter_add_no_wrap)


lemma send_packet_success_lookup:
  "fst (send_packet env P payload sz chan r s) \<Longrightarrow>
   map_of (m_connections (snd (send_packet env P payload sz chan r s))) P
     = map_option (\<lambda>c. c\<lparr>bytes_sent := bytes_sent c + ucast sz\<rparr>) (map_of (m_connections s) P)"
  by (auto simp: send_packet_def Let_def add_bytes_sent_lookup split: if_splits)

lemma send_packet_failure_registry:
  "\<not> fst (send_packet env P payload sz chan r s) \<Longrightarrow>
   m_connections (snd (send_packet env P payload sz chan r s)) = m_connections s"
  by (auto simp: send_packet_def Let_def split: if_splits)

lemma send_packet_lookup_cases:
  "map_of (m_connections (snd (send_packet env q payload sz chan r s))) p
     = map_of (m_connections s) p \<or>
   map_of (m_connections (snd (send_packet env q payload sz chan r s))) p
     = map_option (\<lambda>c. c\<lparr>bytes_sent := bytes_sent c + ucast sz\<rparr>) (map_of (m_connections s) p)"
proof (cases "p = q")
  case False
  then show ?thesis by (simp add: send_packet_lookup_other)
next
  case True
  show ?thesis
  proof (cases "fst (send_packet env q payload sz chan r s)")
    case True
    with \<open>p = q\<close> show ?thesis by (simp add: send_packet_success_lookup)
  next
    case False
    then show ?thesis by (simp add: send_packet_failure_registry)
  qed
qed

lemma fold_send_lookup_cases:
  "distinct ps \<Longrightarrow>
   map_of (m_connections (fold (\<lambda>peer s'. snd (send_packet env peer payload sz chan r s')) ps s)) p
     = map_of (m_connections s) p \<or>
   map_of (m_connections (fold (\<lambda>peer s'. snd (send_packet env peer payload sz chan r s')) ps s)) p
     = map_option (\<lambda>c. c\<lparr>bytes_sent := bytes_sent c + ucast sz\<rparr>) (map_of (m_connections s) p)"
proof (induction ps arbitrary: s)
  case Nil
  then show ?case by simp
next
  case (Cons q ps)
  let ?s1 = "snd (send_packet env q payload sz chan r s)"
  show ?case
  proof (cases "p = q")
    case True
    with Cons.prems have "p \<notin> set ps" by simp
    then have "map_of (m_connections (fold (\<lambda>peer s'. snd (send_packet env peer payload sz chan r s')) ps ?s1)) p
        = map_of (m_connections ?s1) p"
      by (rule fold_send_lookup_other)
    then show ?thesis
      using send_packet_lookup_cases [of env q payload sz chan r s p] by simp
  next
    case False
    then have "map_of (m_connections ?s1) p = map_of (m_connections s) p"
      by (simp add: send_packet_lookup_other)
    then show ?thesis
      using Cons.IH [of ?s1] Cons.prems by simp
  qed
qed

lemma counters_not_below_refl: "counters_not_below c (Some c)"
  by (simp add: counters_not_below_def)

lemma counters_not_below_sent:
  "unat (bytes_sent c) + unat sz < 2 ^ 64 \<Longrightarrow>
   counters_not_below c (Some (c\<lparr>bytes_sent := bytes_sent c + ucast sz\<rparr>))"
  for sz :: "32 word"
  using counter_add_le [of "bytes_sent c" sz] by (simp add: counters_not_below_def)

lemma send_packet_counters:
  assumes "map_of (m_connections s) p = Some c" "unat (bytes_sent c) + unat sz < 2 ^ 64"
  shows "counters_not_below c
           (map_of (m_connections (snd (send_packet env q payload sz chan r s))) p)"
  using send_packet_lookup_cases [of env q payload sz chan r s p] assms
  by (auto simp: counters_not_below_refl counters_not_below_sent)

lemma broadcast_packet_counters:
  assumes "wf_connections s" "map_of (m_connections s) p = Some c"
    "unat (bytes_sent c) + unat sz < 2 ^ 64"
  shows "counters_not_below c
           (map_of (m_connections (broadcast_packet env payload sz chan r s)) p)"
  using fold_send_lookup_cases [OF connected_peers_distinct [OF assms(1)],
          of env payload sz chan r s p] assms(2,3)
  by (auto simp: broadcast_packet_def counters_not_below_refl counters_not_below_sent)

lemma fold_receive_step_counter:
  "map_of (m_connections s) p = Some c \<Longrightarrow>
   unat (bytes_received c) + sum_list (map (\<lambda>x. unat (datagram_bytes x)) xs) < 2 ^ 64 \<Longrightarrow>
   \<exists>c'. map_of (m_connections (fold receive_step xs s)) p = Some c' \<and>
        bytes_sent c' = bytes_sent c \<and>
        unat (bytes_received c) \<le> unat (bytes_received c') \<and>
        unat (bytes_received c')
          \<le> unat (bytes_received c) + sum_list (map (\<lambda>x. unat (datagram_bytes x)) xs)"
proof (induction xs arbitrary: s c)
  case Nil
  then show ?case by simp
next
  case (Cons x xs)
  let ?s1 = "receive_step x s"
  let ?c1 = "if sender x = p
             then c\<lparr>bytes_received := bytes_received c + ucast (datagram_bytes x)\<rparr> else c"
  have look: "map_of (m_connections ?s1) p = Some ?c1"
    using Cons.prems(1)
    by (auto simp: receive_step_def add_bytes_received_lookup datagram_bytes_def)
  have room: "unat (bytes_received c) + unat (datagram_bytes x) < 2 ^ 64"
    using Cons.prems(2) by simp
  have r1: "unat (bytes_received ?c1) =
              unat (bytes_received c) + (if sender x = p then unat (datagram_bytes x) else 0)"
    using room by (simp add: counter_add_no_wrap)
  have "unat (bytes_received ?c1) + sum_list (map (\<lambda>x. unat (datagram_bytes x)) xs) < 2 ^ 64"
    using Cons.prems(2) r1 by (auto split: if_splits)
  from Cons.IH [OF look this]
  obtain c' where c':
    "map_of (m_connections (fold receive_step xs ?s1)) p = Some c'"
    "bytes_sent c' = bytes_sent ?c1"
    "unat (bytes_received ?c1) \<le> unat (bytes_received c')"
    "unat (bytes_received c')
       \<le> unat (bytes_received ?c1) + sum_list (map (\<lambda>x. unat (datagram_bytes x)) xs)"
    by blast
  have "bytes_sent c' = bytes_sent c"
    using c'(2) by (simp split: if_splits)
  moreover have "unat (bytes_received c) \<le> unat (bytes_received c')"
    using c'(3) r1 by linarith
  moreover have "unat (bytes_received c')
       \<le> unat (bytes_received c) + sum_list (map (\<lambda>x. unat (datagram_bytes x)) (x # xs))"
    using c'(4) r1 by (auto split: if_splits)
  ultimately show ?case
    using c'(1) by simp
qed

lemma sum_list_take_le:
  "sum_list (map f (take n xs)) \<le> sum_list (map f xs)" for f :: "'a \<Rightarrow> nat"
proof -
  have "sum_list (map f xs) = sum_list (map f (take n xs)) + sum_list (map f (drop n xs))"
    by (metis append_take_drop_id map_append sum_list_append)
  then show ?thesis by simp
qed

lemma receive_packets_registry:
  "m_connections (snd (receive_packets env n s)) = m_connections s \<or>
   (\<exists>k. m_connections (snd (receive_packets env n s))
          = m_connections (fold receive_step
                             (take k (leading_datagrams (sdk_receive_buffer s))) s))"
  by (simp add: receive_packets_def receive_loop_stub_result receive_loop_sdk_result Let_def)
     blast

lemma receive_packets_counters:
  assumes "map_of (m_connections s) p = Some c"
    "unat (bytes_received c) + buffered_bytes (sdk_receive_buffer s) < 2 ^ 64"
  shows "counters_not_below c (map_of (m_connections (snd (receive_packets env n s))) p)"
proof -
  have "counters_not_below c
          (map_of (m_connections
             (fold receive_step (take k (leading_datagrams (sdk_receive_buffer s))) s)) p)" for k
  proof -
    have "unat (bytes_received c)
            + sum_list (map (\<lambda>x. unat (datagram_bytes x))
                          (take k (leading_datagrams (sdk_receive_buffer s)))) < 2 ^ 64"
      using assms(2) sum_list_take_le [of "\<lambda>x. unat (datagram_bytes x)" k
                       "leading_datagrams (sdk_receive_buffer s)"]
      by (simp add: buffered_bytes_def)
    from fold_receive_step_counter [OF assms(1) this]
    show ?thesis
      by (auto simp: counters_not_below_def word_le_nat_alt)
  qed
  then show ?thesis
    using receive_packets_registry [of env n s] assms(1)
    by (auto simp: counters_not_below_refl)
qed

lemma established_counters:
  "map_of (m_connections s) p = Some c \<Longrightarrow>
   counters_not_below c (map_of (m_connections (handle_connection_established Q s)) p)"
  by (auto simp: handle_connection_established_def update_conv' counters_not_below_def Let_def
        split: option.splits)

lemma connect_to_peer_resets:
  "m_initialized s \<Longrightarrow> P \<noteq> 0 \<Longrightarrow>
   map_option bytes_sent (get_peer_connection (connect_to_peer env P s) P) = Some 0 \<and>
   map_option bytes_received (get_peer_connection (connect_to_peer env P s) P) = Some 0"
  by (simp add: connect_to_peer_def get_peer_connection_def update_conv' Let_def
        PeerConnection_default_def)

text \<open>
  C9, as amended. A \<open>send_packet\<close> that returns true for a peer with an entry adds the
  size to the peer's \<open>bytes_sent\<close>, in 64-bit arithmetic, which is exactly the size
  more when the sum stays below \<open>2 ^ 64\<close>; it changes no other entry, a peer with no
  entry gets none, and a \<open>send_packet\<close> that returns false changes no entry. The two
  counters of an entry do not decrease across \<open>send_packet\<close>, \<open>broadcast_packet\<close>,
  \<open>receive_packets\<close>, \<open>accept_connections\<close> and the handling of a connection
  request or a connection-established notification, provided the bytes added leave the
  counter below \<open>2 ^ 64\<close>. \<open>connect_to_peer\<close> is different: on an initialized manager
  it installs a fresh entry for the peer, with both counters at 0.
\<close>

theorem byte_counters:
  "(fst (send_packet env P payload sz chan r s) \<longrightarrow>
      get_peer_connection (snd (send_packet env P payload sz chan r s)) P
        = map_option (\<lambda>c. c\<lparr>bytes_sent := bytes_sent c + ucast sz\<rparr>)
            (get_peer_connection s P)) \<and>
   (\<not> fst (send_packet env P payload sz chan r s) \<longrightarrow>
      m_connections (snd (send_packet env P payload sz chan r s)) = m_connections s) \<and>
   (\<forall>q. q \<noteq> P \<longrightarrow>
      get_peer_connection (snd (send_packet env P payload sz chan r s)) q
        = get_peer_connection s q) \<and>
   (get_peer_connection s p = Some c \<longrightarrow>
      (unat (bytes_sent c) + unat sz < 2 ^ 64 \<longrightarrow>
         unat (bytes_sent c + ucast sz) = unat (bytes_sent c) + unat sz \<and>
         counters_not_below c
           (get_peer_connection (snd (send_packet env P payload sz chan r s)) p) \<and>
         (wf_connections s \<longrightarrow>
            counters_not_below c
              (get_peer_connection (broadcast_packet env payload sz chan r s) p))) \<and>
      (unat (bytes_received c) + buffered_bytes (sdk_receive_buffer s) < 2 ^ 64 \<longrightarrow>
         counters_not_below c
           (get_peer_connection (snd (receive_packets env max_packets s)) p)) \<and>
      counters_not_below c (get_peer_connection (handle_connection_established Q s) p) \<and>
      counters_not_below c (get_peer_connection (accept_connections env Q s) p) \<and>
      counters_not_below c (get_peer_connection (handle_connection_request env Q s) p)) \<and>
   (m_initialized s \<and> P \<noteq> 0 \<longrightarrow>
      map_option bytes_sent (get_peer_connection (connect_to_peer env P s) P) = Some 0 \<and>
      map_option bytes_received (get_peer_connection (connect_to_peer env P s) P) = Some 0)"
proof (intro conjI impI allI)
  assume "fst (send_packet env P payload sz chan r s)"
  then show "get_peer_connection (snd (send_packet env P payload sz chan r s)) P
        = map_option (\<lambda>c. c\<lparr>bytes_sent := bytes_sent c + ucast sz\<rparr>)
            (get_peer_connection s P)"
    unfolding get_peer_connection_def by (rule send_packet_success_lookup)
next
  assume "\<not> fst (send_packet env P payload sz chan r s)"
  then show "m_connections (snd (send_packet env P payload sz chan r s)) = m_connections s"
    by (rule send_packet_failure_registry)
next
  fix q assume "q \<noteq> P"
  then show "get_peer_connection (snd (send_packet env P payload sz chan r s)) q
        = get_peer_connection s q"
    unfolding get_peer_connection_def by (rule send_packet_lookup_other)
next
  assume c: "get_peer_connection s p = Some c"
    and room: "unat (bytes_sent c) + unat sz < 2 ^ 64"
  show "unat (bytes_sent c + ucast sz) = unat (bytes_sent c) + unat sz"
    by (rule counter_add_no_wrap [OF room])
  show "counters_not_below c
           (get_peer_connection (snd (send_packet env P payload sz chan r s)) p)"
    using c room unfolding get_peer_connection_def by (rule send_packet_counters)
next
  assume c: "get_peer_connection s p = Some c"
    and room: "unat (bytes_sent c) + unat sz < 2 ^ 64" and wf: "wf_connections s"
  show "counters_not_below c
              (get_peer_connection (broadcast_packet env payload sz chan r s) p)"
    using wf c room unfolding get_peer_connection_def by (rule broadcast_packet_counters)
next
  assume c: "get_peer_connection s p = Some c"
    and room: "unat (bytes_received c) + buffered_bytes (sdk_receive_buffer s) < 2 ^ 64"
  show "counters_not_below c
           (get_peer_connection (snd (receive_packets env max_packets s)) p)"
    using c room unfolding get_peer_connection_def by (rule receive_packets_counters)
next
  assume c: "get_peer_connection s p = Some c"
  show "counters_not_below c (get_peer_connection (handle_connection_established Q s) p)"
    using c unfolding get_peer_connection_def by (rule established_counters)
  show "counters_not_below c (get_peer_connection (accept_connections env Q s) p)"
    using c by (simp add: get_peer_connection_def accept_connections_def
                  counters_not_below_refl)
  show "counters_not_below c (get_peer_connection (handle_connection_request env Q s) p)"
    using c by (simp add: get_peer_connection_def handle_connection_request_def
                  accept_connections_def counters_not_below_refl)
next
  assume a: "m_initialized s \<and> P \<noteq> 0"
  show "map_option bytes_sent (get_peer_connection (connect_to_peer env P s) P) = Some 0"
    using a connect_to_peer_resets [of s P env] by simp
  show "map_option bytes_received (get_peer_connection (connect_to_peer env P s) P) = Some 0"
    using a connect_to_peer_resets [of s P env] by simp
qed

theorem byte_counters_witness:
  "fst (send_packet live_env 7 (Some [1, 2, 3]) 3 0 ReliableOrdered busy_state) \<and>
   get_peer_connection busy_state 7 = Some busy_entry \<and>
   map_option bytes_sent
     (get_peer_connection
        (snd (send_packet live_env 7 (Some [1, 2, 3]) 3 0 ReliableOrdered busy_state)) 7)
     = Some 103 \<and>
   counters_not_below busy_entry
     (get_peer_connection
        (snd (send_packet live_env 7 (Some [1, 2, 3]) 3 0 ReliableOrdered busy_state)) 7) \<and>
   counters_not_below busy_entry
     (get_peer_connection
        (broadcast_packet live_env (Some [1, 2, 3]) 3 0 ReliableOrdered busy_state) 7) \<and>
   counters_not_below busy_entry
     (get_peer_connection (snd (receive_packets live_env 100 busy_state)) 7) \<and>
   counters_not_below busy_entry
     (get_peer_connection (handle_connection_established 9 busy_state) 7) \<and>
   map_option bytes_sent (get_peer_connection (connect_to_peer live_env 7 busy_state) 7)
     = Some 0 \<and>
   get_peer_connection
     (snd (send_packet live_env 7 (Some [1, 2, 3]) 3 0 ReliableOrdered busy_state)) 9
     = get_peer_connection busy_state 9 \<and>
   \<not> fst (send_packet live_env 7 (Some []) 0 0 ReliableOrdered busy_state) \<and>
   m_connections (snd (send_packet live_env 7 (Some []) 0 0 ReliableOrdered busy_state))
     = m_connections busy_state"
proof -
  have ok: "fst (send_packet live_env 7 (Some [1, 2, 3]) 3 0 ReliableOrdered busy_state)"
    "\<not> fst (send_packet live_env 7 (Some []) 0 0 ReliableOrdered busy_state)"
    by (simp_all add: eval_defs busy_state_def)
  have entry: "get_peer_connection busy_state 7 = Some busy_entry"
    by (simp add: get_peer_connection_def busy_state_def)
  have room: "unat (bytes_sent busy_entry) + unat (3 :: 32 word) < 2 ^ 64"
    "unat (bytes_received busy_entry) + buffered_bytes (sdk_receive_buffer busy_state) < 2 ^ 64"
    by (simp_all add: busy_entry_def busy_state_def buffered_bytes_def datagram_bytes_def
          packet_A_def packet_B_def)
  have wf: "wf_connections busy_state" "m_initialized busy_state"
    by (simp_all add: wf_connections_def busy_state_def ready_state_def P2PManager_new_def)
  have sent: "bytes_sent busy_entry = 100"
    by (simp add: busy_entry_def)
  note sending = byte_counters [of live_env 7 "Some [1, 2, 3]" 3 0 ReliableOrdered busy_state
                                   7 busy_entry 100 9]
  note failing = byte_counters [of live_env 7 "Some []" 0 0 ReliableOrdered busy_state
                                   7 busy_entry 100 9]
  have other: "get_peer_connection
     (snd (send_packet live_env 7 (Some [1, 2, 3]) 3 0 ReliableOrdered busy_state)) 9
     = get_peer_connection busy_state 9"
    using sending by auto
  have kept: "m_connections (snd (send_packet live_env 7 (Some []) 0 0 ReliableOrdered busy_state))
     = m_connections busy_state"
    using failing ok(2) by blast
  show ?thesis
    using sending ok entry room wf other kept
    by (simp add: sent counters_not_below_def busy_entry_def)
qed

text \<open>
  C9 as the spec has it fails. Peer 7 has 100 bytes sent and 40 received; after
  \<open>connect_to_peer\<close> for peer 7, in either build, both counters are 0. And in the stub
  build a \<open>send_packet\<close> of five bytes to peer 7, which has no entry, returns true and
  no counter grows, since peer 7 still has no entry.
\<close>

theorem byte_counters_counterexample:
  "map_option bytes_sent (get_peer_connection busy_state 7) = Some 100 \<and>
   map_option bytes_received (get_peer_connection busy_state 7) = Some 40 \<and>
   map_option bytes_sent (get_peer_connection (connect_to_peer live_env 7 busy_state) 7)
     = Some 0 \<and>
   map_option bytes_received (get_peer_connection (connect_to_peer live_env 7 busy_state) 7)
     = Some 0 \<and>
   map_option bytes_sent (get_peer_connection (connect_to_peer stub_env 7 busy_state) 7)
     = Some 0 \<and>
   \<not> counters_not_below busy_entry
       (get_peer_connection (connect_to_peer live_env 7 busy_state) 7) \<and>
   get_peer_connection ready_state 7 = None \<and>
   fst (send_packet stub_env 7 (Some [1, 2, 3, 4, 5]) 5 0 UnreliableUnordered ready_state) \<and>
   get_peer_connection
     (snd (send_packet stub_env 7 (Some [1, 2, 3, 4, 5]) 5 0 UnreliableUnordered ready_state)) 7
     = None"
  by (simp add: eval_defs busy_state_def busy_entry_def counters_not_below_def)

end
